theory Spec2Isabelle
  imports Complex_Main
begin

section \<open>The document store: profiles and mails\<close>

text \<open>
  The routes under \<^verbatim>\<open>/api/profiles\<close> and \<^verbatim>\<open>/api/mails\<close> work on two MongoDB
  collections. A collection is a list of documents in insertion order; \<^verbatim>\<open>findOne\<close>,
  \<^verbatim>\<open>updateOne\<close> and \<^verbatim>\<open>deleteOne\<close> act on the first document that matches the filter.

  A profile document carries \<^verbatim>\<open>uuid\<close>, \<^verbatim>\<open>google_id\<close> (only when created by the Google
  sign-in), \<^verbatim>\<open>email\<close> and \<^verbatim>\<open>scanned\<close> (absent until set); its other fields (name,
  password hash, creation date) are read by no handler below. A mail document carries
  \<^verbatim>\<open>uuid\<close>, \<^verbatim>\<open>user_uuid\<close> and the remaining validated fields of \<^verbatim>\<open>MailSchema\<close>, kept
  as one value of type \<open>'c\<close>.
\<close>

record profile =
  p_uuid :: string
  p_google_id :: "string option"
  p_email :: "string option"
  p_scanned :: "string list option"

record 'c mail =
  m_uuid :: string
  m_user_uuid :: string
  m_content :: 'c

record 'c db =
  profiles :: "profile list"
  mails :: "'c mail list"

text \<open>What \<^verbatim>\<open>NextResponse.json(value, {status})\<close> sends.\<close>

datatype 'c json =
  Error_json string
  | Message_json string
  | Mail_json "'c mail"
  | Null_json

datatype 'c response = Response (status: nat) (json: "'c json")

subsection \<open>Collection operations\<close>

definition findOne :: "('a \<Rightarrow> bool) \<Rightarrow> 'a list \<Rightarrow> 'a option" where
  "findOne P docs = find P docs"

definition insertOne :: "'a \<Rightarrow> 'a list \<Rightarrow> 'a list" where
  "insertOne d docs = docs @ [d]"

definition deleteMany :: "('a \<Rightarrow> bool) \<Rightarrow> 'a list \<Rightarrow> 'a list" where
  "deleteMany P docs = filter (\<lambda>d. \<not> P d) docs"

text \<open>\<^verbatim>\<open>deleteOne\<close> and \<^verbatim>\<open>updateOne\<close> return \<^verbatim>\<open>deletedCount\<close> / \<^verbatim>\<open>matchedCount\<close> with the
  new collection.\<close>

fun deleteOne :: "('a \<Rightarrow> bool) \<Rightarrow> 'a list \<Rightarrow> nat \<times> 'a list" where
  "deleteOne P [] = (0, [])"
| "deleteOne P (d # docs) =
     (if P d then (1, docs)
      else (fst (deleteOne P docs), d # snd (deleteOne P docs)))"

fun updateOne :: "('a \<Rightarrow> bool) \<Rightarrow> ('a \<Rightarrow> 'a) \<Rightarrow> 'a list \<Rightarrow> nat \<times> 'a list" where
  "updateOne P f [] = (0, [])"
| "updateOne P f (d # docs) =
     (if P d then (1, f d # docs)
      else (fst (updateOne P f docs), d # snd (updateOne P f docs)))"

definition updateMany :: "('a \<Rightarrow> bool) \<Rightarrow> ('a \<Rightarrow> 'a) \<Rightarrow> 'a list \<Rightarrow> 'a list" where
  "updateMany P f docs = map (\<lambda>d. if P d then f d else d) docs"

text \<open>The filter \<^verbatim>\<open>{ scanned: id }\<close> matches a profile whose \<^verbatim>\<open>scanned\<close> array holds
  \<^verbatim>\<open>id\<close>; the update \<^verbatim>\<open>{ $pull: { scanned: id } }\<close> removes every occurrence of it.\<close>

definition scanned_has :: "string \<Rightarrow> profile \<Rightarrow> bool" where
  "scanned_has i p = (case p_scanned p of None \<Rightarrow> False | Some s \<Rightarrow> i \<in> set s)"

definition pull_scanned :: "string \<Rightarrow> profile \<Rightarrow> profile" where
  "pull_scanned i p = p\<lparr>p_scanned := map_option (removeAll i) (p_scanned p)\<rparr>"

subsection \<open>\<^verbatim>\<open>POST /api/mails\<close>\<close>

text \<open>
  \<^verbatim>\<open>MailSchema.parse\<close> is the zod library applied to a schema of \<^verbatim>\<open>lib/schemas.ts\<close>; the
  sources hold more than one version of that schema, so the parser is a parameter: it
  maps a request body to the validated fields, or to \<open>None\<close> when it throws a
  \<^verbatim>\<open>ZodError\<close>. The request body itself is \<open>None\<close> when \<^verbatim>\<open>request.json()\<close> throws.
  \<open>randomUUID\<close> is the value \<^verbatim>\<open>randomUUID()\<close> would return.

  Every awaited database call can reject; the handler's \<^verbatim>\<open>catch\<close> then answers 500 and
  the calls made before it keep their effect. \<open>resolves k\<close> says whether the \<open>k\<close>-th
  awaited database call of the request resolves; call \<open>0\<close> is \<^verbatim>\<open>getDb()\<close>. The
  throwing branch is written as the \<open>else\<close> of the call that can throw.
\<close>

record 'c parsed_mail =
  pm_uuid :: "string option"
  pm_user_uuid :: string
  pm_content :: 'c

text \<open>\<^verbatim>\<open>a || b\<close> on an optional string: the empty string and \<^verbatim>\<open>undefined\<close> are falsy.\<close>

definition or_else :: "string option \<Rightarrow> string \<Rightarrow> string" where
  "or_else a b = (case a of None \<Rightarrow> b | Some s \<Rightarrow> if s = [] then b else s)"

definition mails_POST ::
  "('b \<Rightarrow> 'c parsed_mail option) \<Rightarrow> string \<Rightarrow> (nat \<Rightarrow> bool) \<Rightarrow> 'c db \<Rightarrow> 'b option
     \<Rightarrow> 'c response \<times> 'c db" where
  "mails_POST MailSchema_parse randomUUID resolves d request_json =
     (case request_json of
        None \<Rightarrow> (Response 500 (Error_json ''Failed to create mail''), d)
      | Some body \<Rightarrow>
          (case MailSchema_parse body of
             None \<Rightarrow> (Response 400 (Error_json ''Validation failed''), d)
           | Some v \<Rightarrow>
               let data = \<lparr>m_uuid = or_else (pm_uuid v) randomUUID,
                           m_user_uuid = pm_user_uuid v,
                           m_content = pm_content v\<rparr>
               in if resolves 0 \<and> resolves 1
                  then (case findOne (\<lambda>p. p_uuid p = m_user_uuid data) (profiles d) of
                          None \<Rightarrow> (Response 404 (Error_json ''Profile not found''), d)
                        | Some profileExists \<Rightarrow>
                            if resolves 2
                            then (Response 201 (Mail_json data),
                                  d\<lparr>mails := insertOne data (mails d)\<rparr>)
                            else (Response 500 (Error_json ''Failed to create mail''), d))
                  else (Response 500 (Error_json ''Failed to create mail''), d)))"

subsection \<open>\<^verbatim>\<open>PUT /api/mails/[id]\<close> and \<^verbatim>\<open>DELETE /api/mails/[id]\<close>\<close>

text \<open>
  \<^verbatim>\<open>MailSchema.partial().parse\<close> makes every field optional; \<^verbatim>\<open>{ $set: validated }\<close>
  overwrites exactly the fields that are present.
\<close>

record 'c mail_patch =
  mp_uuid :: "string option"
  mp_user_uuid :: "string option"
  mp_content :: "'c \<Rightarrow> 'c"

definition set_fields :: "'c mail_patch \<Rightarrow> 'c mail \<Rightarrow> 'c mail" where
  "set_fields v m =
     \<lparr>m_uuid = (case mp_uuid v of None \<Rightarrow> m_uuid m | Some u \<Rightarrow> u),
      m_user_uuid = (case mp_user_uuid v of None \<Rightarrow> m_user_uuid m | Some u \<Rightarrow> u),
      m_content = mp_content v (m_content m)\<rparr>"

definition mails_id_PUT ::
  "('b \<Rightarrow> 'c mail_patch option) \<Rightarrow> (nat \<Rightarrow> bool) \<Rightarrow> 'c db \<Rightarrow> string \<Rightarrow> 'b option
     \<Rightarrow> 'c response \<times> 'c db" where
  "mails_id_PUT MailSchema_partial_parse resolves d params_id request_json =
     (case request_json of
        None \<Rightarrow> (Response 500 (Error_json ''Failed to update mail''), d)
      | Some body \<Rightarrow>
          (case MailSchema_partial_parse body of
             None \<Rightarrow> (Response 400 (Error_json ''ZodError''), d)
           | Some validated \<Rightarrow>
               if resolves 0 \<and> resolves 1
               then
                 let result = updateOne (\<lambda>m. m_uuid m = params_id) (set_fields validated) (mails d);
                     d' = d\<lparr>mails := snd result\<rparr>
                 in if fst result = 0
                    then (Response 404 (Error_json ''Mail not found''), d')
                    else if resolves 2
                    then (case findOne (\<lambda>m. m_uuid m = params_id) (mails d') of
                            None \<Rightarrow> (Response 200 Null_json, d')
                          | Some updated \<Rightarrow> (Response 200 (Mail_json updated), d'))
                    else (Response 500 (Error_json ''Failed to update mail''), d')
               else (Response 500 (Error_json ''Failed to update mail''), d)))"

definition mails_id_DELETE ::
  "(nat \<Rightarrow> bool) \<Rightarrow> 'c db \<Rightarrow> string \<Rightarrow> 'c response \<times> 'c db" where
  "mails_id_DELETE resolves d params_id =
     (if resolves 0 \<and> resolves 1
      then (case findOne (\<lambda>m. m_uuid m = params_id) (mails d) of
              None \<Rightarrow> (Response 404 (Error_json ''Mail not found''), d)
            | Some mail \<Rightarrow>
                if resolves 2
                then
                  let d1 = d\<lparr>profiles :=
                              updateMany (scanned_has params_id) (pull_scanned params_id)
                                (profiles d)\<rparr>
                  in if resolves 3
                     then
                       (Response 200 (Message_json ''Mail deleted''),
                        d1\<lparr>mails := snd (deleteOne (\<lambda>m. m_uuid m = params_id) (mails d1))\<rparr>)
                     else (Response 500 (Error_json ''Failed to delete mail''), d1)
                else (Response 500 (Error_json ''Failed to delete mail''), d))
      else (Response 500 (Error_json ''Failed to delete mail''), d))"

subsection \<open>\<^verbatim>\<open>DELETE /api/profiles/[id]\<close>\<close>

definition profiles_id_DELETE ::
  "(nat \<Rightarrow> bool) \<Rightarrow> 'c db \<Rightarrow> string \<Rightarrow> 'c response \<times> 'c db" where
  "profiles_id_DELETE resolves d params_id =
     (if resolves 0 \<and> resolves 1
      then
        let d1 = d\<lparr>mails := deleteMany (\<lambda>m. m_user_uuid m = params_id) (mails d)\<rparr>
        in if resolves 2
           then
             let result = deleteOne (\<lambda>p. p_uuid p = params_id) (profiles d1);
                 d2 = d1\<lparr>profiles := snd result\<rparr>
             in if fst result = 0
                then (Response 404 (Error_json ''Profile not found''), d2)
                else (Response 200 (Message_json ''Profile deleted''), d2)
           else (Response 500 (Error_json ''Failed to delete profile''), d1)
      else (Response 500 (Error_json ''Failed to delete profile''), d))"

subsection \<open>Referential integrity\<close>

text \<open>Every mail is owned by an existing profile; every scanned reference names an
  existing mail.\<close>

definition owner_exists :: "profile list \<Rightarrow> 'c mail \<Rightarrow> bool" where
  "owner_exists ps m = list_ex (\<lambda>p. p_uuid p = m_user_uuid m) ps"

definition mails_owned :: "'c db \<Rightarrow> bool" where
  "mails_owned d = list_all (owner_exists (profiles d)) (mails d)"

definition scanned_ids :: "profile \<Rightarrow> string list" where
  "scanned_ids p = (case p_scanned p of None \<Rightarrow> [] | Some s \<Rightarrow> s)"

definition mail_exists :: "'c mail list \<Rightarrow> string \<Rightarrow> bool" where
  "mail_exists ms i = list_ex (\<lambda>m. m_uuid m = i) ms"

definition no_dangling_scanned :: "'c db \<Rightarrow> bool" where
  "no_dangling_scanned d =
     list_all (\<lambda>p. list_all (mail_exists (mails d)) (scanned_ids p)) (profiles d)"

section \<open>Mailbox messages\<close>

text \<open>
  A Gmail message in \<^verbatim>\<open>format: 'full'\<close>: the payload is a tree of parts. A part has a
  MIME type, a file name (empty unless it is an attachment), headers, an optional body
  (\<^verbatim>\<open>size\<close>, \<^verbatim>\<open>data\<close>, \<^verbatim>\<open>attachmentId\<close>) and an optional array of child parts. A
  field the API leaves out is \<open>None\<close>.
\<close>

record part_body =
  b_size :: "int option"
  b_data :: "string option"
  attachmentId :: "string option"

datatype part =
  Part (mimeType: string) (filename: string) (headers: "(string \<times> string) list")
    (body: "part_body option") (parts: "part list option")

record message =
  msg_id :: string
  msg_threadId :: string
  payload :: part
  labelIds :: "string list option"
  msg_snippet :: string

text \<open>An optional string is truthy when it is present and not empty.\<close>

definition truthy :: "string option \<Rightarrow> bool" where
  "truthy s = (case s of None \<Rightarrow> False | Some v \<Rightarrow> v \<noteq> [])"

subsection \<open>\<^verbatim>\<open>decodeBase64Url\<close> and \<^verbatim>\<open>getEmailBody\<close>\<close>

text \<open>
  \<^verbatim>\<open>s.replace(/c/g, r)\<close> for a single character \<open>c\<close>.
  \<^verbatim>\<open>Buffer.from(s, 'base64').toString('utf-8')\<close> is Node's library; it is the parameter
  \<open>base64_utf8\<close>. On a string it does not throw, so the \<^verbatim>\<open>catch\<close> of
  \<^verbatim>\<open>decodeBase64Url\<close> has no branch here.
\<close>

definition replace_all :: "char \<Rightarrow> string \<Rightarrow> string \<Rightarrow> string" where
  "replace_all c r s = concat (map (\<lambda>x. if x = c then r else [x]) s)"

definition decodeBase64Url :: "(string \<Rightarrow> string) \<Rightarrow> string \<Rightarrow> string" where
  "decodeBase64Url base64_utf8 data =
     base64_utf8 (replace_all (CHR ''_'') ''/'' (replace_all (CHR ''-'') ''+'' data))"

text \<open>\<^verbatim>\<open>payload.body?.size > 0 && payload.body.data\<close>, and \<^verbatim>\<open>part?.body?.data\<close> for the
  result of \<^verbatim>\<open>parts.find(...)\<close>.\<close>

definition root_data :: "part \<Rightarrow> string option" where
  "root_data pl =
     (case body pl of
        None \<Rightarrow> None
      | Some b \<Rightarrow>
          (case b_size b of
             None \<Rightarrow> None
           | Some n \<Rightarrow> if 0 < n \<and> truthy (b_data b) then b_data b else None))"

definition part_data :: "part option \<Rightarrow> string option" where
  "part_data p =
     (case p of
        None \<Rightarrow> None
      | Some q \<Rightarrow>
          (case body q of
             None \<Rightarrow> None
           | Some b \<Rightarrow> if truthy (b_data b) then b_data b else None))"

definition plain_text_html :: "string \<Rightarrow> string" where
  "plain_text_html text =
     ''<div style='' @ [CHR 0x22] @ ''white-space: pre-wrap; font-family: monospace;''
       @ [CHR 0x22] @ ''>''
       @ replace_all (CHR ''>'') ''&gt;'' (replace_all (CHR ''<'') ''&lt;'' text)
       @ ''</div>''"

text \<open>\<open>nested_parts\<close> is the \<^verbatim>\<open>for (const part of payload.parts)\<close> loop with its
  \<^verbatim>\<open>break\<close>.\<close>

fun getEmailBody :: "(string \<Rightarrow> string) \<Rightarrow> part \<Rightarrow> string"
  and nested_parts :: "(string \<Rightarrow> string) \<Rightarrow> part list \<Rightarrow> string" where
  "getEmailBody dec (Part mt fn hs bd ps) =
     (case root_data (Part mt fn hs bd ps) of
        Some d \<Rightarrow> decodeBase64Url dec d
      | None \<Rightarrow>
          (case ps of
             None \<Rightarrow> []
           | Some children \<Rightarrow>
               (case part_data (find (\<lambda>part. mimeType part = ''text/html'') children) of
                  Some d \<Rightarrow> decodeBase64Url dec d
                | None \<Rightarrow>
                    (case part_data (find (\<lambda>part. mimeType part = ''text/plain'') children) of
                       Some d \<Rightarrow> plain_text_html (decodeBase64Url dec d)
                     | None \<Rightarrow> nested_parts dec children))))"
| "nested_parts dec [] = []"
| "nested_parts dec (part # rest) =
     (if getEmailBody dec part \<noteq> [] then getEmailBody dec part else nested_parts dec rest)"

subsection \<open>\<^verbatim>\<open>processEmail\<close>\<close>

text \<open>
  An awaited call of a remote API either rejects, with the \<^verbatim>\<open>code\<close> of the error when it
  has one, or resolves with a value.
\<close>

datatype 'a api = Rejects "int option" | Resolves 'a

text \<open>
  The part of the file system \<^verbatim>\<open>processEmail\<close> touches: the directories that exist and
  the files written, latest first.
\<close>

record fs =
  directories :: "string list"
  files :: "(string \<times> string) list"

record EmailAttachment =
  a_filename :: string
  a_mimeType :: string
  a_size :: int
  url :: "string option"

record ProcessedEmail =
  e_id :: string
  threadId :: string
  subject :: string
  e_from :: string
  fromEmail :: string
  e_to :: string
  e_date :: string
  snippet :: string
  e_body :: string
  isRead :: bool
  hasAttachments :: bool
  attachments :: "EmailAttachment list"
  labels :: "string list"
  isInvoice :: "bool option"
  invoiceConfidence :: "real option"

text \<open>
  What \<^verbatim>\<open>processEmail\<close> calls outside the repository:
  \<^item> \<open>base64_utf8\<close>, as above; \<open>match_from\<close> is
    \<^verbatim>\<open>emailString.match(/^"?(.+?)"?\s*<(.+?)>$/)\<close> giving the two groups, \<open>trim\<close> is
    \<^verbatim>\<open>String.prototype.trim\<close>, \<open>encodeURIComponent\<close> is \<open>None\<close> when it throws;
  \<^item> \<open>attachments_get messageId id\<close> is \<^verbatim>\<open>gmail.users.messages.attachments.get\<close>,
    resolving with \<^verbatim>\<open>attData.data?.data\<close>;
  \<^item> \<open>Buffer_from\<close> is \<^verbatim>\<open>Buffer.from(attData.data.data, 'base64')\<close> on the untyped
    response of the API, \<open>None\<close> when it throws;
  \<^item> \<open>cwd\<close> is \<^verbatim>\<open>process.cwd()\<close>; \<open>mkdirSync path\<close> and \<open>writeFileSync path\<close> say
    whether the call on that path returns (\<open>True\<close>) or throws.
\<close>

record mailbox =
  base64_utf8 :: "string \<Rightarrow> string"
  match_from :: "string \<Rightarrow> (string \<times> string) option"
  trim :: "string \<Rightarrow> string"
  encodeURIComponent :: "string \<Rightarrow> string option"
  attachments_get :: "string \<Rightarrow> string \<Rightarrow> string option api"
  Buffer_from :: "string \<Rightarrow> string option"
  cwd :: string
  mkdirSync :: "string \<Rightarrow> bool"
  writeFileSync :: "string \<Rightarrow> bool"

definition toLowerCase :: "string \<Rightarrow> string" where
  "toLowerCase s =
     map (\<lambda>c. case map_of (zip ''ABCDEFGHIJKLMNOPQRSTUVWXYZ'' ''abcdefghijklmnopqrstuvwxyz'') c of
                 None \<Rightarrow> c | Some l \<Rightarrow> l) s"

definition getHeader :: "(string \<times> string) list \<Rightarrow> string \<Rightarrow> string" where
  "getHeader hs name =
     (case find (\<lambda>h. toLowerCase (fst h) = toLowerCase name) hs of
        None \<Rightarrow> [] | Some header \<Rightarrow> snd header)"

definition parseEmailAddress :: "'m mailbox_scheme \<Rightarrow> string \<Rightarrow> string \<times> string" where
  "parseEmailAddress w emailString =
     (case match_from w emailString of
        Some match \<Rightarrow> (trim w (fst match), trim w (snd match))
      | None \<Rightarrow> (emailString, emailString))"

text \<open>\<^verbatim>\<open>path.join\<close> on segments that need no normalisation.\<close>

definition path_join :: "string list \<Rightarrow> string" where
  "path_join segments = foldr (\<lambda>s acc. if acc = [] then s else s @ ''/'' @ acc) segments []"

definition upload_dir :: "'m mailbox_scheme \<Rightarrow> string \<Rightarrow> string \<Rightarrow> string" where
  "upload_dir w userId messageId =
     path_join [cwd w, ''public'', ''attachments'', userId, messageId]"

text \<open>\<^verbatim>\<open>part.body?.attachmentId\<close> when truthy, and \<^verbatim>\<open>part.body.size || 0\<close>.\<close>

definition part_attachmentId :: "part \<Rightarrow> string option" where
  "part_attachmentId p =
     (case body p of
        None \<Rightarrow> None
      | Some b \<Rightarrow> if truthy (attachmentId b) then attachmentId b else None)"

definition part_size :: "part \<Rightarrow> int" where
  "part_size p =
     (case body p of
        None \<Rightarrow> 0
      | Some b \<Rightarrow> (case b_size b of None \<Rightarrow> 0 | Some n \<Rightarrow> n))"

text \<open>
  The \<^verbatim>\<open>try\<close> block of the loop over the parts: it throws, or finds no data in the
  response (and pushes nothing), or saves the file and yields its public URL. The
  directory made and the file written before a throw stay on the disk.
\<close>

datatype saved = Thrown | No_data | Saved string

definition save_attachment ::
  "'m mailbox_scheme \<Rightarrow> string \<Rightarrow> string \<Rightarrow> part \<Rightarrow> string \<Rightarrow> fs \<Rightarrow> saved \<times> fs" where
  "save_attachment w userId messageId p attId disk =
     (case attachments_get w messageId attId of
        Rejects code \<Rightarrow> (Thrown, disk)
      | Resolves attData \<Rightarrow>
          (case attData of
             None \<Rightarrow> (No_data, disk)
           | Some d \<Rightarrow>
               if d = [] then (No_data, disk)
               else
                 (case Buffer_from w d of
                    None \<Rightarrow> (Thrown, disk)
                  | Some buffer \<Rightarrow>
                      let uploadDir = upload_dir w userId messageId;
                          exists = (uploadDir \<in> set (directories disk))
                      in if exists \<or> mkdirSync w uploadDir
                         then
                           let disk1 = (if exists then disk
                                        else disk\<lparr>directories := uploadDir # directories disk\<rparr>);
                               localFilePath = path_join [uploadDir, filename p]
                           in if writeFileSync w localFilePath
                              then
                                let disk2 = disk1\<lparr>files := (localFilePath, buffer) # files disk1\<rparr>
                                in (case encodeURIComponent w (filename p) of
                                      None \<Rightarrow> (Thrown, disk2)
                                    | Some name \<Rightarrow>
                                        (Saved (''/attachments/'' @ userId @ ''/'' @ messageId
                                                  @ ''/'' @ name),
                                         disk2))
                              else (Thrown, disk1)
                         else (Thrown, disk))))"

definition attachment_entry :: "part \<Rightarrow> string option \<Rightarrow> EmailAttachment" where
  "attachment_entry p u =
     \<lparr>a_filename = filename p, a_mimeType = mimeType p, a_size = part_size p, url = u\<rparr>"

text \<open>One round of the loop: \<open>acc\<close> is the \<^verbatim>\<open>attachments\<close> array so far, with the disk.\<close>

definition process_part ::
  "'m mailbox_scheme \<Rightarrow> string \<Rightarrow> string \<Rightarrow> EmailAttachment list \<times> fs \<Rightarrow> part
     \<Rightarrow> EmailAttachment list \<times> fs" where
  "process_part w userId messageId acc p =
     (case part_attachmentId p of
        None \<Rightarrow> acc
      | Some attId \<Rightarrow>
          if filename p = [] then acc
          else
            (case save_attachment w userId messageId p attId (snd acc) of
               (Saved publicUrl, disk) \<Rightarrow> (fst acc @ [attachment_entry p (Some publicUrl)], disk)
             | (No_data, disk) \<Rightarrow> (fst acc, disk)
             | (Thrown, disk) \<Rightarrow> (fst acc @ [attachment_entry p None], disk)))"

definition processEmail ::
  "'m mailbox_scheme \<Rightarrow> string \<Rightarrow> message \<Rightarrow> fs \<Rightarrow> ProcessedEmail \<times> fs" where
  "processEmail w userId message disk =
     (let hs = headers (payload message);
          sender = parseEmailAddress w (getHeader hs ''From'');
          ps = (case parts (payload message) of None \<Rightarrow> [] | Some l \<Rightarrow> l);
          done = foldl (process_part w userId (msg_id message)) ([], disk) ps
      in (\<lparr>e_id = msg_id message,
           threadId = msg_threadId message,
           subject = getHeader hs ''Subject'',
           e_from = fst sender,
           fromEmail = snd sender,
           e_to = getHeader hs ''To'',
           e_date = getHeader hs ''Date'',
           snippet = msg_snippet message,
           e_body = getEmailBody (base64_utf8 w) (payload message),
           isRead = (case labelIds message of None \<Rightarrow> True | Some ls \<Rightarrow> ''UNREAD'' \<notin> set ls),
           hasAttachments = (fst done \<noteq> []),
           attachments = fst done,
           labels = (case labelIds message of None \<Rightarrow> [] | Some ls \<Rightarrow> ls),
           isInvoice = None,
           invoiceConfidence = None\<rparr>,
          snd done))"

text \<open>
  The failures the \<^verbatim>\<open>catch\<close> of the loop is there for: the fetch of the bytes rejects,
  or there is data and decoding it throws, or the directory is missing and cannot be
  made, or the file cannot be written, or the URL cannot be encoded.
\<close>

definition attachment_fails ::
  "'m mailbox_scheme \<Rightarrow> string \<Rightarrow> string \<Rightarrow> part \<Rightarrow> string \<Rightarrow> fs \<Rightarrow> bool" where
  "attachment_fails w userId messageId p attId disk =
     (case attachments_get w messageId attId of
        Rejects code \<Rightarrow> True
      | Resolves attData \<Rightarrow>
          (case attData of
             None \<Rightarrow> False
           | Some d \<Rightarrow>
               d \<noteq> [] \<and>
               (case Buffer_from w d of
                  None \<Rightarrow> True
                | Some buffer \<Rightarrow>
                    (upload_dir w userId messageId \<notin> set (directories disk)
                       \<and> \<not> mkdirSync w (upload_dir w userId messageId))
                    \<or> \<not> writeFileSync w (path_join [upload_dir w userId messageId, filename p])
                    \<or> encodeURIComponent w (filename p) = None)))"


text \<open>
  Every part of a payload, at any depth, the payload first. No function of the source
  walks the tree for attachments (\<^verbatim>\<open>processEmail\<close> reads \<^verbatim>\<open>payload.parts\<close> and no further);
  \<open>parts_at_any_depth\<close> is what ``every part of a message'' ranges over, written here to
  say where in the tree a part stands.
\<close>

fun parts_at_any_depth :: "part \<Rightarrow> part list"
  and parts_of_each :: "part list \<Rightarrow> part list" where
  "parts_at_any_depth (Part mt fn hs bd children) =
     Part mt fn hs bd children
       # (case children of None \<Rightarrow> [] | Some l \<Rightarrow> parts_of_each l)"
| "parts_of_each [] = []"
| "parts_of_each (p # rest) = parts_at_any_depth p @ parts_of_each rest"
section \<open>Sessions, tokens and the Google sign-in\<close>

subsection \<open>Dev-mode persistence\<close>

text \<open>
  \<^verbatim>\<open>DevStorage\<close> holds two plain JavaScript objects used as dictionaries: \<^verbatim>\<open>sessions\<close>,
  keyed by session id, and \<^verbatim>\<open>tokens\<close>, keyed by the Google user id. A field that is
  \<^verbatim>\<open>undefined\<close> is \<open>None\<close>.
\<close>

record session =
  userId :: string
  s_email :: "string option"
  profile_uuid :: "string option"

record token_set =
  access_token :: "string option"
  refresh_token :: "string option"

record DevStorage =
  sessions :: "string \<rightharpoonup> session"
  tokens :: "string \<rightharpoonup> token_set"

text \<open>
  Reading \<^verbatim>\<open>obj[key]\<close> on a plain object finds the object's own property or, failing
  that, a property inherited from \<^verbatim>\<open>Object.prototype\<close>. Both objects are made by an object
  literal or by \<^verbatim>\<open>JSON.parse\<close>, so they inherit the members below; each of them is a
  function or an object, hence truthy, and none has a \<^verbatim>\<open>userId\<close>, an \<^verbatim>\<open>email\<close>, a
  \<^verbatim>\<open>profile_uuid\<close> or an \<^verbatim>\<open>access_token\<close> (reading these gives \<^verbatim>\<open>undefined\<close>).
\<close>

definition Object_prototype :: "string list" where
  "Object_prototype =
     [''constructor'', ''__proto__'', ''hasOwnProperty'', ''isPrototypeOf'',
      ''propertyIsEnumerable'', ''toLocaleString'', ''toString'', ''valueOf'',
      ''__defineGetter__'', ''__defineSetter__'', ''__lookupGetter__'', ''__lookupSetter__'']"

datatype 'a property = Own 'a | Inherited | Undefined

definition get_property :: "(string \<rightharpoonup> 'a) \<Rightarrow> string \<Rightarrow> 'a property" where
  "get_property obj key =
     (case obj key of
        Some v \<Rightarrow> Own v
      | None \<Rightarrow> if key \<in> set Object_prototype then Inherited else Undefined)"

text \<open>\<^verbatim>\<open>session.userId\<close>, and the property key a value is converted to:
  \<^verbatim>\<open>obj[undefined]\<close> reads and writes the key \<^verbatim>\<open>"undefined"\<close>.\<close>

definition userId_of :: "session property \<Rightarrow> string option" where
  "userId_of s = (case s of Own v \<Rightarrow> Some (userId v) | Inherited \<Rightarrow> None | Undefined \<Rightarrow> None)"

definition property_key :: "string option \<Rightarrow> string" where
  "property_key k = (case k of None \<Rightarrow> ''undefined'' | Some s \<Rightarrow> s)"

text \<open>
  The module keeps \<^verbatim>\<open>storageCache\<close>, a reference to a \<^verbatim>\<open>DevStorage\<close> object, and outside
  production shadows it in the file \<^verbatim>\<open>.dev_storage.json\<close>. Handlers mutate the object they
  loaded, and \<^verbatim>\<open>loadStorage\<close> may meanwhile have pointed the cache at another object, so
  the objects live in an explicit heap: \<open>objects\<close> maps a reference to the object's current
  value, \<open>next_object\<close> is the first unused reference. The file is missing, or cannot be
  read or parsed, or holds a storage value.
\<close>

datatype file_state = No_file | Unreadable | Stored DevStorage

record store =
  production :: bool
  objects :: "nat \<Rightarrow> DevStorage"
  next_object :: nat
  storageCache :: nat
  storage_file :: file_state

definition empty_storage :: DevStorage where
  "empty_storage = \<lparr>sessions = Map.empty, tokens = Map.empty\<rparr>"

definition allocate :: "DevStorage \<Rightarrow> store \<Rightarrow> nat \<times> store" where
  "allocate v st =
     (next_object st,
      st\<lparr>objects := (objects st)(next_object st := v),
         next_object := Suc (next_object st),
         storageCache := next_object st\<rparr>)"

definition loadStorage :: "store \<Rightarrow> nat \<times> store" where
  "loadStorage st =
     (if production st then (storageCache st, st)
      else (case storage_file st of
              No_file \<Rightarrow> (storageCache st, st)
            | Stored data \<Rightarrow> allocate data st
            | Unreadable \<Rightarrow> allocate empty_storage st))"

text \<open>\<open>write_ok\<close> says whether \<^verbatim>\<open>fs.writeFileSync(STORAGE_FILE, ...)\<close> returns; when it
  throws, the assignment to the cache made before it stays.\<close>

definition saveStorage :: "bool \<Rightarrow> nat \<Rightarrow> store \<Rightarrow> store" where
  "saveStorage write_ok storageToSave st =
     (if production st then st
      else if write_ok
        then st\<lparr>storageCache := storageToSave,
                storage_file := Stored (objects st storageToSave)\<rparr>
        else st\<lparr>storageCache := storageToSave\<rparr>)"

text \<open>The storage the next request will load.\<close>

definition stored :: "store \<Rightarrow> DevStorage" where
  "stored st = objects (snd (loadStorage st)) (fst (loadStorage st))"

text \<open>A request carries the cookie \<^verbatim>\<open>session_id\<close>, if any. \<^verbatim>\<open>getSession\<close> returns the
  session object found (or \<^verbatim>\<open>null\<close>, here \<open>Undefined\<close>), with the storage object it was read
  from.\<close>

definition getSession :: "string option \<Rightarrow> store \<Rightarrow> (session property \<times> nat) \<times> store" where
  "getSession cookie st =
     (let loaded = loadStorage st;
          storage = fst loaded
      in (((case cookie of
              None \<Rightarrow> Undefined
            | Some sessionId \<Rightarrow>
                if sessionId = [] then Undefined
                else get_property (sessions (objects (snd loaded) storage)) sessionId),
           storage),
          snd loaded))"

definition getTokens :: "string option \<Rightarrow> store \<Rightarrow> token_set property \<times> store" where
  "getTokens cookie st =
     (let loaded = loadStorage st;
          storage = fst loaded;
          found = getSession cookie (snd loaded);
          session = fst (fst found);
          st' = snd found
      in (case session of
            Undefined \<Rightarrow> (Undefined, st')
          | Own s \<Rightarrow> (get_property (tokens (objects st' storage)) (userId s), st')
          | Inherited \<Rightarrow> (get_property (tokens (objects st' storage)) ''undefined'', st')))"

subsection \<open>The OAuth client\<close>

text \<open>
  What the handlers call at Google: \<open>verifyIdToken credential\<close> resolves with the payload
  of the ticket (\<^verbatim>\<open>sub\<close>, \<^verbatim>\<open>email\<close>) or with none, \<open>getToken code\<close> with the tokens,
  \<open>revokeToken access_token\<close> resolves or rejects. \<open>storage_write_ok\<close> is the outcome of
  writing the storage file during the request, \<open>new_session_id\<close> the id made from the clock
  and \<^verbatim>\<open>Math.random()\<close>, \<open>generateAuthUrl\<close> the URL made for a state.
\<close>

record id_payload =
  sub :: "string option"
  payload_email :: "string option"

record oauth =
  verifyIdToken :: "string \<Rightarrow> id_payload option api"
  getToken :: "string \<Rightarrow> token_set api"
  revokeToken :: "string \<Rightarrow> unit api"
  storage_write_ok :: bool
  new_session_id :: string
  generateAuthUrl :: "string \<Rightarrow> string"

subsection \<open>Find or create the profile\<close>

text \<open>
  The block \<^verbatim>\<open>// Create or get profile\<close> stands three times in the source, in
  \<^verbatim>\<open>authGoogle\<close>, \<^verbatim>\<open>authStatus\<close> and \<^verbatim>\<open>getEmails\<close>, with the same statements: look the
  profile up by \<^verbatim>\<open>google_id\<close>; if there is none, insert one with a fresh uuid and look
  it up by that uuid. It makes four awaited database calls (\<^verbatim>\<open>getDb\<close>,
  \<^verbatim>\<open>findOne\<close>, \<^verbatim>\<open>insertOne\<close>, \<^verbatim>\<open>findOne\<close>), and at each \<^verbatim>\<open>await\<close> the request gives way
  to the other requests the server is handling: the collection it reads at one call is the
  collection as the others have left it. The \<^verbatim>\<open>profiles\<close> collection has no unique index
  (\<^verbatim>\<open>getDb\<close> only connects), so \<^verbatim>\<open>insertOne\<close> never fails on a duplicate \<^verbatim>\<open>google_id\<close>.

  The block is therefore modelled call by call. A \<open>foc_call\<close> is one run of the block: the
  outcome of its four awaited calls (\<open>c_resolves k\<close>, for \<open>k\<close> from 0), the uuid that
  \<^verbatim>\<open>randomUUID()\<close> gives it, and the \<^verbatim>\<open>google_id\<close> and \<^verbatim>\<open>email\<close> it carries. A \<open>foc_stage\<close> says
  which awaited call the run makes next; \<open>Finished r\<close> is a run that has left the block,
  with \<^verbatim>\<open>profile!.uuid\<close> as \<open>Some uuid\<close>, or \<open>None\<close> when a call has rejected or \<^verbatim>\<open>profile\<close> is
  \<^verbatim>\<open>null\<close>: the block has thrown. \<open>foc_step\<close> makes the next awaited call of a run on the
  collection as it stands.
\<close>

record foc_call =
  c_resolves :: "nat \<Rightarrow> bool"
  c_randomUUID :: string
  c_google :: string
  c_email :: "string option"

datatype foc_stage =
  Connect
  | Lookup
  | Insert
  | Refind
  | Finished "string option"

fun foc_step :: "foc_call \<Rightarrow> foc_stage \<times> profile list \<Rightarrow> foc_stage \<times> profile list" where
  "foc_step c (Connect, ps) =
     (if c_resolves c 0 then (Lookup, ps) else (Finished None, ps))"
| "foc_step c (Lookup, ps) =
     (if c_resolves c 1
      then (case findOne (\<lambda>p. p_google_id p = Some (c_google c)) ps of
              Some profile \<Rightarrow> (Finished (Some (p_uuid profile)), ps)
            | None \<Rightarrow> (Insert, ps))
      else (Finished None, ps))"
| "foc_step c (Insert, ps) =
     (if c_resolves c 2
      then (Refind, insertOne \<lparr>p_uuid = c_randomUUID c, p_google_id = Some (c_google c),
                               p_email = c_email c, p_scanned = None\<rparr> ps)
      else (Finished None, ps))"
| "foc_step c (Refind, ps) =
     (if c_resolves c 3
      then (Finished (map_option p_uuid (findOne (\<lambda>p. p_uuid p = c_randomUUID c) ps)), ps)
      else (Finished None, ps))"
| "foc_step c (Finished r, ps) = (Finished r, ps)"

text \<open>What a run has returned: nothing yet while it is still inside the block.\<close>

fun returned :: "foc_stage \<Rightarrow> string option" where
  "returned (Finished r) = r"
| "returned _ = None"

text \<open>
  \<open>uninterrupted c ps\<close> is a run whose four calls follow one another with no call of another
  request between them: what a request does when it is the only one at work on the
  collection. \<open>findOrCreateProfile\<close> is that run, with the parameters the handlers pass;
  the handlers below are each one request taken alone.
\<close>

definition uninterrupted :: "foc_call \<Rightarrow> profile list \<Rightarrow> string option \<times> profile list" where
  "uninterrupted c ps =
     (let s = foc_step c (foc_step c (foc_step c (foc_step c (Connect, ps))))
      in (returned (fst s), snd s))"

definition findOrCreateProfile ::
  "(nat \<Rightarrow> bool) \<Rightarrow> string \<Rightarrow> string \<Rightarrow> string option \<Rightarrow> profile list
     \<Rightarrow> string option \<times> profile list" where
  "findOrCreateProfile resolves randomUUID google email ps =
     uninterrupted \<lparr>c_resolves = resolves, c_randomUUID = randomUUID, c_google = google,
                    c_email = email\<rparr> ps"

text \<open>
  Runs one after the other, each starting on the collection the one before has left:
  the results in order, and the collection at the end.
\<close>

fun in_sequence :: "foc_call list \<Rightarrow> profile list \<Rightarrow> string option list \<times> profile list" where
  "in_sequence [] ps = ([], ps)"
| "in_sequence (c # cs) ps =
     (let r = uninterrupted c ps;
          rest = in_sequence cs (snd r)
      in (fst r # fst rest, snd rest))"

text \<open>
  Two requests at once. The schedule says whose awaited call the database serves next
  (\<open>True\<close> the first request, \<open>False\<close> the second); the state is the stage of each run and
  the collection they share.
\<close>

fun overlapping ::
  "foc_call \<Rightarrow> foc_call \<Rightarrow> bool list \<Rightarrow> (foc_stage \<times> foc_stage) \<times> profile list
     \<Rightarrow> (foc_stage \<times> foc_stage) \<times> profile list" where
  "overlapping a b [] s = s"
| "overlapping a b (first # schedule) s =
     (if first
      then (let s' = foc_step a (fst (fst s), snd s)
            in overlapping a b schedule ((fst s', snd (fst s)), snd s'))
      else (let s' = foc_step b (snd (fst s), snd s)
            in overlapping a b schedule ((fst (fst s), fst s'), snd s')))"

text \<open>The profiles that carry a given \<^verbatim>\<open>google_id\<close>.\<close>

definition with_google_id :: "string \<Rightarrow> profile list \<Rightarrow> profile list" where
  "with_google_id gid ps = filter (\<lambda>p. p_google_id p = Some gid) ps"

subsection \<open>\<^verbatim>\<open>POST /api/auth/google\<close>\<close>

datatype auth_json =
  Auth_error nat string
  | Auth_ok (authUrl: string) (set_cookie: string)

record auth_request =
  credential :: "string option"
  email :: "string option"

text \<open>\<open>or_undefined a b\<close> is \<^verbatim>\<open>a || b\<close> on optional strings.\<close>

definition or_undefined :: "string option \<Rightarrow> string option \<Rightarrow> string option" where
  "or_undefined a b = (if truthy a then a else b)"

definition authGoogle ::
  "oauth \<Rightarrow> (nat \<Rightarrow> bool) \<Rightarrow> string \<Rightarrow> auth_request option \<Rightarrow> store \<times> 'c db
     \<Rightarrow> auth_json \<times> store \<times> 'c db" where
  "authGoogle g resolves randomUUID request_json s =
     (let loaded = loadStorage (fst s);
          storage = fst loaded;
          st = snd loaded;
          d = snd s
      in (case request_json of
            None \<Rightarrow> (Auth_error 500 ''Authentication failed'', st, d)
          | Some rq \<Rightarrow>
              (case credential rq of
                 None \<Rightarrow> (Auth_error 400 ''Credential is required'', st, d)
               | Some cred \<Rightarrow>
                   if cred = [] then (Auth_error 400 ''Credential is required'', st, d)
                   else
                     (case verifyIdToken g cred of
                        Rejects code \<Rightarrow> (Auth_error 500 ''Authentication failed'', st, d)
                      | Resolves ticket \<Rightarrow>
                          (case (case ticket of None \<Rightarrow> None
                                 | Some pl \<Rightarrow> if truthy (sub pl) then sub pl else None) of
                             None \<Rightarrow> (Auth_error 400 ''Invalid credential'', st, d)
                           | Some uid \<Rightarrow>
                               let userEmail = or_undefined (email rq)
                                     (case ticket of None \<Rightarrow> None | Some pl \<Rightarrow> payload_email pl);
                                   found = findOrCreateProfile resolves randomUUID uid userEmail
                                             (profiles d);
                                   d' = d\<lparr>profiles := snd found\<rparr>
                               in (case fst found of
                                     None \<Rightarrow> (Auth_error 500 ''Authentication failed'', st, d')
                                   | Some uuid \<Rightarrow>
                                       let sessionId = new_session_id g;
                                           obj = objects st storage;
                                           st1 = st\<lparr>objects := (objects st)
                                                  (storage := obj\<lparr>sessions := (sessions obj)
                                                     (sessionId \<mapsto>
                                                        \<lparr>userId = uid, s_email = userEmail,
                                                         profile_uuid = Some uuid\<rparr>)\<rparr>)\<rparr>;
                                           st2 = saveStorage (storage_write_ok g) storage st1
                                       in (Auth_ok (generateAuthUrl g sessionId) sessionId,
                                           st2, d')))))))"

subsection \<open>\<^verbatim>\<open>GET /api/auth/google/callback\<close>\<close>

text \<open>The callback answers with an HTML page: the success page, or the failure page
  (status 500) showing the message of the error thrown.\<close>

datatype callback_error = Missing_code_or_state | Invalid_or_expired_session | Token_exchange_failed

datatype page = Success_page | Failure_page callback_error

definition authGoogleCallback ::
  "oauth \<Rightarrow> string option \<Rightarrow> string option \<Rightarrow> store \<Rightarrow> page \<times> store" where
  "authGoogleCallback g code state st0 =
     (let loaded = loadStorage st0;
          storage = fst loaded;
          st = snd loaded
      in (case code of
            None \<Rightarrow> (Failure_page Missing_code_or_state, st)
          | Some c \<Rightarrow>
              (case state of
                 None \<Rightarrow> (Failure_page Missing_code_or_state, st)
               | Some sessionId \<Rightarrow>
                   if c = [] \<or> sessionId = [] then (Failure_page Missing_code_or_state, st)
                   else
                     (case get_property (sessions (objects st storage)) sessionId of
                        Undefined \<Rightarrow> (Failure_page Invalid_or_expired_session, st)
                      | Inherited \<Rightarrow>
                          (case getToken g c of
                             Rejects err \<Rightarrow> (Failure_page Token_exchange_failed, st)
                           | Resolves tks \<Rightarrow>
                               let obj = objects st storage;
                                   st1 = st\<lparr>objects := (objects st)
                                          (storage := obj\<lparr>tokens := (tokens obj)
                                             (''undefined'' \<mapsto> tks)\<rparr>)\<rparr>
                               in (Success_page, saveStorage (storage_write_ok g) storage st1))
                      | Own session \<Rightarrow>
                          (case getToken g c of
                             Rejects err \<Rightarrow> (Failure_page Token_exchange_failed, st)
                           | Resolves tks \<Rightarrow>
                               let obj = objects st storage;
                                   st1 = st\<lparr>objects := (objects st)
                                          (storage := obj\<lparr>tokens := (tokens obj)
                                             (userId session \<mapsto> tks)\<rparr>)\<rparr>
                               in (Success_page, saveStorage (storage_write_ok g) storage st1))))))"

subsection \<open>\<^verbatim>\<open>POST /api/auth/disconnect\<close>\<close>

text \<open>
  The handler always answers \<^verbatim>\<open>{ success: true, message: 'Disconnected' }\<close> and deletes the
  cookie; what differs is the storage it leaves. The revocation stands inside the
  \<^verbatim>\<open>try\<close>, before the statements that clear the storage: when it rejects, control goes to
  the \<^verbatim>\<open>catch\<close>, which only logs.
\<close>

definition clear_entries :: "string \<Rightarrow> string option \<Rightarrow> DevStorage \<Rightarrow> DevStorage" where
  "clear_entries token_key cookie obj =
     obj\<lparr>tokens := (tokens obj)(token_key := None),
         sessions := (case cookie of
                        None \<Rightarrow> sessions obj
                      | Some sessionId \<Rightarrow>
                          if sessionId = [] then sessions obj
                          else (sessions obj)(sessionId := None))\<rparr>"

definition authDisconnect :: "oauth \<Rightarrow> string option \<Rightarrow> store \<Rightarrow> store" where
  "authDisconnect g cookie st0 =
     (let loaded = loadStorage st0;
          storage = fst loaded;
          found = getSession cookie (snd loaded);
          session = fst (fst found);
          st = snd found
      in (case session of
            Undefined \<Rightarrow> st
          | _ \<Rightarrow>
              let key = property_key (userId_of session);
                  revoked =
                    (case get_property (tokens (objects st storage)) key of
                       Own tks \<Rightarrow>
                         (case access_token tks of
                            None \<Rightarrow> True
                          | Some t \<Rightarrow>
                              if t = [] then True
                              else (case revokeToken g t of
                                      Rejects err \<Rightarrow> False
                                    | Resolves u \<Rightarrow> True))
                     | Inherited \<Rightarrow> True
                     | Undefined \<Rightarrow> True)
              in if revoked
                 then
                   saveStorage (storage_write_ok g) storage
                     (st\<lparr>objects := (objects st)
                          (storage := clear_entries key cookie (objects st storage))\<rparr>)
                 else st))"

subsection \<open>\<^verbatim>\<open>GET /api/auth/status\<close>\<close>

text \<open>
  A session that is a member of \<^verbatim>\<open>Object.prototype\<close> would have the handler write
  \<^verbatim>\<open>profile_uuid\<close> into a built-in object of the runtime, which this embedding does not
  hold; the handler's answer on that path is \<open>Status_outside_model\<close>.
\<close>

datatype status_json =
  Status_json (isAuthenticated: bool) (userEmail: "string option")
    (status_profile_uuid: "string option")
  | Status_outside_model

text \<open>
  \<^verbatim>\<open>if (sessionId && storage.sessions[sessionId]) { storage.sessions[sessionId].profile_uuid
  = uuid; saveStorage(storage); }\<close>, shared by \<^verbatim>\<open>authStatus\<close> and \<^verbatim>\<open>getEmails\<close>. The
  result is \<open>None\<close> when the property read is an inherited one (the assignment would then
  go to a built-in object).
\<close>

definition set_profile_uuid :: "string \<Rightarrow> string \<Rightarrow> DevStorage \<Rightarrow> DevStorage" where
  "set_profile_uuid sessionId uuid obj =
     (case sessions obj sessionId of
        None \<Rightarrow> obj
      | Some s \<Rightarrow> obj\<lparr>sessions := (sessions obj)(sessionId \<mapsto> s\<lparr>profile_uuid := Some uuid\<rparr>)\<rparr>)"

definition backfill :: "bool \<Rightarrow> string option \<Rightarrow> string \<Rightarrow> nat \<Rightarrow> store \<Rightarrow> store option" where
  "backfill write_ok cookie uuid storage st =
     (case cookie of
        None \<Rightarrow> Some st
      | Some sessionId \<Rightarrow>
          if sessionId = [] then Some st
          else
            (case get_property (sessions (objects st storage)) sessionId of
               Undefined \<Rightarrow> Some st
             | Inherited \<Rightarrow> None
             | Own s \<Rightarrow>
                 Some (saveStorage write_ok storage
                         (st\<lparr>objects := (objects st)
                              (storage := set_profile_uuid sessionId uuid
                                            (objects st storage))\<rparr>))))"

definition authStatus ::
  "oauth \<Rightarrow> (nat \<Rightarrow> bool) \<Rightarrow> string \<Rightarrow> string option \<Rightarrow> store \<times> 'c db
     \<Rightarrow> status_json \<times> store \<times> 'c db" where
  "authStatus g resolves randomUUID cookie s =
     (let found = getSession cookie (fst s);
          storage = snd (fst found);
          st = snd found;
          d = snd s
      in (case fst (fst found) of
            Undefined \<Rightarrow> (Status_json False None None, st, d)
          | Inherited \<Rightarrow> (Status_outside_model, st, d)
          | Own session \<Rightarrow>
              let hasTokens = (get_property (tokens (objects st storage)) (userId session)
                                 \<noteq> Undefined);
                  mail = (if truthy (s_email session) then s_email session else None)
              in if truthy (profile_uuid session)
                 then (Status_json hasTokens mail (profile_uuid session), st, d)
                 else
                   let created = findOrCreateProfile resolves randomUUID (userId session)
                                   (s_email session) (profiles d);
                       d' = d\<lparr>profiles := snd created\<rparr>
                   in (case fst created of
                         None \<Rightarrow> (Status_json hasTokens mail None, st, d')
                       | Some uuid \<Rightarrow>
                           (case backfill (storage_write_ok g) cookie uuid storage st of
                              None \<Rightarrow> (Status_outside_model, st, d')
                            | Some st' \<Rightarrow>
                                (Status_json hasTokens mail
                                   (if uuid = [] then None else Some uuid), st', d')))))"

section \<open>Invoice verification and the mailbox fetch\<close>

subsection \<open>\<^verbatim>\<open>extractEmailBody\<close>\<close>

text \<open>
  The text sent to the classifier. \<open>dec\<close> is \<^verbatim>\<open>Buffer.from(data, 'base64').toString('utf-8')\<close>
  and \<open>strip\<close> is \<^verbatim>\<open>html.replace(/<[^>]*>/g, ' ').replace(/\s+/g, ' ').trim()\<close>, both
  evaluated by the runtime. The first two loops return at the first part of the type that
  has data; the third descends into the parts that have a \<^verbatim>\<open>parts\<close> array.
\<close>

fun extractEmailBody :: "(string \<Rightarrow> string) \<Rightarrow> (string \<Rightarrow> string) \<Rightarrow> part \<Rightarrow> string"
  and extract_nested :: "(string \<Rightarrow> string) \<Rightarrow> (string \<Rightarrow> string) \<Rightarrow> part list \<Rightarrow> string" where
  "extractEmailBody dec strip (Part mt fn hs bd ps) =
     (case part_data (Some (Part mt fn hs bd ps)) of
        Some d \<Rightarrow> dec d
      | None \<Rightarrow>
          (case ps of
             None \<Rightarrow> []
           | Some children \<Rightarrow>
               (case part_data (find (\<lambda>part. mimeType part = ''text/plain''
                                         \<and> part_data (Some part) \<noteq> None) children) of
                  Some d \<Rightarrow> dec d
                | None \<Rightarrow>
                    (case part_data (find (\<lambda>part. mimeType part = ''text/html''
                                               \<and> part_data (Some part) \<noteq> None) children) of
                       Some d \<Rightarrow> strip (dec d)
                     | None \<Rightarrow> extract_nested dec strip children))))"
| "extract_nested dec strip [] = []"
| "extract_nested dec strip (part # rest) =
     (if parts part \<noteq> None \<and> extractEmailBody dec strip part \<noteq> []
      then extractEmailBody dec strip part
      else extract_nested dec strip rest)"

subsection \<open>\<^verbatim>\<open>POST /api/verify-invoice\<close>\<close>

text \<open>
  The route forwards subject, body and attachment name to the classifier (the FastAPI
  backend) and, for an invoice, posts the mail to \<^verbatim>\<open>/api/mails\<close>. The classifier call
  either throws (a network error) or answers with a status and a body, which is \<open>None\<close>
  when \<^verbatim>\<open>response.json()\<close> throws. Of the verdict, \<^verbatim>\<open>is_invoice\<close> and \<^verbatim>\<open>confidence\<close> are
  read; \<^verbatim>\<open>success\<close>, \<^verbatim>\<open>message\<close> and \<^verbatim>\<open>details\<close> are only copied.
\<close>

record classifier_request =
  cr_subject :: string
  cr_body :: string
  cr_attachment_filename :: "string option"

record verification =
  is_invoice :: bool
  confidence :: "real option"

datatype classifier_response = Network_error | Http_response nat "verification option"

text \<open>\<^verbatim>\<open>response.ok\<close>.\<close>

definition response_ok :: "nat \<Rightarrow> bool" where
  "response_ok s = (200 \<le> s \<and> s \<le> 299)"

text \<open>
  A \<^verbatim>\<open>fetch\<close> from one route of the application to another either never reaches the
  route and rejects, or reaches it and rejects afterwards (the route has run, its answer
  is lost), or resolves with the route's answer.
\<close>

datatype delivery = Undelivered | Response_lost | Delivered

record email_data =
  ed_id :: string
  ed_threadId :: string
  ed_from :: string
  ed_to :: string
  ed_snippet :: string
  ed_date :: string
  ed_isRead :: bool
  ed_hasAttachments :: bool
  ed_attachments :: "EmailAttachment list"
  ed_user_uuid :: "string option"

record verify_request =
  vr_subject :: "string option"
  vr_body :: "string option"
  vr_attachment_filename :: "string option"
  vr_emailData :: "email_data option"
  x_user_uuid :: "string option"

record mail_data =
  md_user_uuid :: string
  md_email_id :: string
  md_thread_id :: string
  md_from :: string
  md_to :: string
  md_subject :: "string option"
  md_body :: "string option"
  md_snippet :: string
  md_date :: string
  md_is_read :: bool
  md_has_attachments :: bool
  md_attachments :: "EmailAttachment list"
  md_is_invoice :: bool
  md_invoice_confidence :: "real option"

datatype verify_json =
  Verify_error string
  | Verified (v_is_invoice: bool) (v_confidence: "real option") (saved_to_db: bool)

datatype verify_response = Verify_response (v_status: nat) (v_json: verify_json)

text \<open>
  What the route calls: the classifier; the \<^verbatim>\<open>fetch\<close> of \<^verbatim>\<open>/api/mails\<close>, whose delivery
  is \<open>mails_delivery\<close>; and, inside \<^verbatim>\<open>POST /api/mails\<close>, the schema parser on the posted
  mail, the database calls and \<^verbatim>\<open>randomUUID()\<close>.
\<close>

record 'c verifier =
  classifier :: "classifier_request \<Rightarrow> classifier_response"
  mails_delivery :: delivery
  MailSchema_parse :: "mail_data \<Rightarrow> 'c parsed_mail option"
  mails_resolves :: "nat \<Rightarrow> bool"
  mail_randomUUID :: string

definition or_empty :: "string option \<Rightarrow> string" where
  "or_empty a = (case a of None \<Rightarrow> [] | Some s \<Rightarrow> s)"

text \<open>The body of the request forwarded to the classifier.\<close>

definition forwarded :: "verify_request \<Rightarrow> classifier_request" where
  "forwarded rq =
     \<lparr>cr_subject = or_empty (vr_subject rq),
      cr_body = or_empty (vr_body rq),
      cr_attachment_filename =
        (if truthy (vr_attachment_filename rq) then vr_attachment_filename rq else None)\<rparr>"

definition verify_invoice_POST ::
  "'c verifier \<Rightarrow> verify_request option \<Rightarrow> 'c db \<Rightarrow> verify_response \<times> 'c db" where
  "verify_invoice_POST v request_json d =
     (case request_json of
        None \<Rightarrow> (Verify_response 500 (Verify_error ''Internal server error during verification''), d)
      | Some rq \<Rightarrow>
          if \<not> truthy (vr_subject rq) \<and> \<not> truthy (vr_body rq)
          then (Verify_response 400 (Verify_error ''Either subject or body must be provided''), d)
          else
            (case classifier v (forwarded rq) of
               Network_error \<Rightarrow>
                 (Verify_response 500 (Verify_error ''Internal server error during verification''), d)
             | Http_response s answer \<Rightarrow>
                 if response_ok s
                 then
                   (case answer of
                      None \<Rightarrow>
                        (Verify_response 500
                           (Verify_error ''Internal server error during verification''), d)
                    | Some verificationData \<Rightarrow>
                        let unsaved = Verify_response 200
                              (Verified (is_invoice verificationData)
                                 (confidence verificationData) False)
                        in (case vr_emailData rq of
                              None \<Rightarrow> (unsaved, d)
                            | Some emailData \<Rightarrow>
                                if is_invoice verificationData
                                then
                                  (case (if truthy (x_user_uuid rq) then x_user_uuid rq
                                         else if truthy (ed_user_uuid emailData)
                                           then ed_user_uuid emailData else None) of
                                     None \<Rightarrow> (unsaved, d)
                                   | Some userUuid \<Rightarrow>
                                       let mailData =
                                             \<lparr>md_user_uuid = userUuid,
                                              md_email_id = ed_id emailData,
                                              md_thread_id = ed_threadId emailData,
                                              md_from = ed_from emailData,
                                              md_to = ed_to emailData,
                                              md_subject = vr_subject rq,
                                              md_body = vr_body rq,
                                              md_snippet = ed_snippet emailData,
                                              md_date = ed_date emailData,
                                              md_is_read = ed_isRead emailData,
                                              md_has_attachments = ed_hasAttachments emailData,
                                              md_attachments = ed_attachments emailData,
                                              md_is_invoice = is_invoice verificationData,
                                              md_invoice_confidence = confidence verificationData\<rparr>;
                                           posted = mails_POST (MailSchema_parse v)
                                                      (mail_randomUUID v) (mails_resolves v) d
                                                      (Some mailData)
                                       in (case mails_delivery v of
                                             Undelivered \<Rightarrow> (unsaved, d)
                                           | Response_lost \<Rightarrow> (unsaved, snd posted)
                                           | Delivered \<Rightarrow>
                                               if response_ok (status (fst posted))
                                               then (Verify_response 200
                                                       (Verified (is_invoice verificationData)
                                                          (confidence verificationData) True),
                                                     snd posted)
                                               else (unsaved, snd posted)))
                                else (unsaved, d)))
                 else (Verify_response s (Verify_error ''Failed to verify email with backend''), d)))"

text \<open>The classifier call fails: it throws a network error, or answers with a status
  that is not 2xx.\<close>

definition classifier_fails :: "classifier_response \<Rightarrow> bool" where
  "classifier_fails r =
     (case r of Network_error \<Rightarrow> True | Http_response s answer \<Rightarrow> \<not> response_ok s)"

subsection \<open>\<^verbatim>\<open>processEmailWithVerification\<close>\<close>

text \<open>
  The world of the mailbox fetch: the mailbox as before, the runtime's \<open>strip_html\<close>, the
  Gmail list and get calls, and per message (by its id) the delivery of the \<^verbatim>\<open>fetch\<close> of
  \<^verbatim>\<open>/api/verify-invoice\<close> and what that route meets. \<open>profile_resolves\<close> and
  \<open>profile_randomUUID\<close> belong to the find-or-create block of \<^verbatim>\<open>getEmails\<close>.
  \<open>settles_first\<close> is the timing of the \<^verbatim>\<open>messages.get\<close> calls that run side by side: it
  says which of the calls that reject does so first (counted among the rejecting calls,
  in the order of the list, and taken modulo their number).
\<close>

record list_response =
  messages :: "string list option"
  resultSizeEstimate :: "nat option"

record 'c world = mailbox +
  strip_html :: "string \<Rightarrow> string"
  messages_list :: "list_response api"
  messages_get :: "string \<Rightarrow> message api"
  verify_delivery :: "string \<Rightarrow> delivery"
  verifier :: "string \<Rightarrow> 'c verifier"
  profile_resolves :: "nat \<Rightarrow> bool"
  profile_randomUUID :: string
  settles_first :: nat

text \<open>\<^verbatim>\<open>verificationData.confidence || null\<close>: zero is falsy.\<close>

definition or_null :: "real option \<Rightarrow> real option" where
  "or_null c = (case c of None \<Rightarrow> None | Some x \<Rightarrow> if x = 0 then None else Some x)"

definition verification_request :: "'c world \<Rightarrow> string \<Rightarrow> message \<Rightarrow> ProcessedEmail \<Rightarrow> verify_request" where
  "verification_request w profileUuid emailData processedEmail =
     \<lparr>vr_subject = Some (getHeader (headers (payload emailData)) ''subject''),
      vr_body = Some (extractEmailBody (base64_utf8 w) (strip_html w) (payload emailData)),
      vr_attachment_filename =
        (case attachments processedEmail of
           [] \<Rightarrow> None
         | a # rest \<Rightarrow> if a_filename a = [] then None else Some (a_filename a)),
      vr_emailData =
        Some \<lparr>ed_id = e_id processedEmail,
              ed_threadId = threadId processedEmail,
              ed_from = e_from processedEmail @ '' <'' @ fromEmail processedEmail @ ''>'',
              ed_to = e_to processedEmail,
              ed_snippet = snippet processedEmail,
              ed_date = e_date processedEmail,
              ed_isRead = isRead processedEmail,
              ed_hasAttachments = hasAttachments processedEmail,
              ed_attachments = attachments processedEmail,
              ed_user_uuid = None\<rparr>,
      x_user_uuid = Some profileUuid\<rparr>"

definition not_invoice :: "ProcessedEmail \<Rightarrow> ProcessedEmail" where
  "not_invoice processedEmail = processedEmail\<lparr>isInvoice := Some False, invoiceConfidence := None\<rparr>"

definition processEmailWithVerification ::
  "'c world \<Rightarrow> string \<Rightarrow> string \<Rightarrow> message \<Rightarrow> fs \<times> 'c db \<Rightarrow> ProcessedEmail \<times> fs \<times> 'c db" where
  "processEmailWithVerification w uid profileUuid emailData s =
     (let processed = processEmail w uid emailData (fst s);
          processedEmail = fst processed;
          disk = snd processed;
          d = snd s;
          answered = verify_invoice_POST (verifier w (msg_id emailData))
                       (Some (verification_request w profileUuid emailData processedEmail)) d
      in (case verify_delivery w (msg_id emailData) of
            Undelivered \<Rightarrow> (not_invoice processedEmail, disk, d)
          | Response_lost \<Rightarrow> (not_invoice processedEmail, disk, snd answered)
          | Delivered \<Rightarrow>
              if response_ok (v_status (fst answered))
              then (case v_json (fst answered) of
                      Verified i c saved \<Rightarrow>
                        (processedEmail\<lparr>isInvoice := Some i, invoiceConfidence := or_null c\<rparr>,
                         disk, snd answered)
                    | Verify_error e \<Rightarrow> (not_invoice processedEmail, disk, snd answered))
              else (not_invoice processedEmail, disk, snd answered)))"

subsection \<open>\<^verbatim>\<open>GET /api/emails\<close>\<close>

text \<open>
  \<^verbatim>\<open>Promise.all\<close> starts the work on every message at once and the runtime interleaves
  it; here the messages are processed one after the other in the order of the list, each
  from the disk and the database the one before left. The result array has the order of
  the list in either case. The \<^verbatim>\<open>Promise.all\<close> over the \<^verbatim>\<open>messages.get\<close> calls resolves
  with every message, in the order of the list, when every call resolves; when some
  reject, it rejects with the error of the call that rejects first in time, which is
  the one \<open>settles_first\<close> names, and that error is the one the \<^verbatim>\<open>catch\<close> sees. As in \<^verbatim>\<open>authStatus\<close>, a session that is a member of
  \<^verbatim>\<open>Object.prototype\<close> leads to writes into built-in objects; the answer on that path is
  \<open>Emails_outside_model\<close>.
\<close>

datatype emails_json =
  Emails_error nat string
  | Emails (emails: "ProcessedEmail list") (total: nat) (unreadCount: nat)
      (invoiceCount: "nat option")
  | Emails_outside_model

text \<open>The error codes of the \<^verbatim>\<open>messages.get\<close> calls that reject, and the messages of those
  that resolve, each in the order of the list.\<close>

fun rejections :: "(string \<Rightarrow> message api) \<Rightarrow> string list \<Rightarrow> int option list" where
  "rejections get [] = []"
| "rejections get (i # ids) =
     (case get i of
        Rejects code \<Rightarrow> code # rejections get ids
      | Resolves m \<Rightarrow> rejections get ids)"

fun resolutions :: "(string \<Rightarrow> message api) \<Rightarrow> string list \<Rightarrow> message list" where
  "resolutions get [] = []"
| "resolutions get (i # ids) =
     (case get i of
        Rejects code \<Rightarrow> resolutions get ids
      | Resolves m \<Rightarrow> m # resolutions get ids)"

definition get_all ::
  "nat \<Rightarrow> (string \<Rightarrow> message api) \<Rightarrow> string list \<Rightarrow> message list api" where
  "get_all first get ids =
     (case rejections get ids of
        [] \<Rightarrow> Resolves (resolutions get ids)
      | code # codes \<Rightarrow> Rejects ((code # codes) ! (first mod length (code # codes))))"

fun process_all ::
  "'c world \<Rightarrow> string \<Rightarrow> string \<Rightarrow> message list \<Rightarrow> fs \<times> 'c db
     \<Rightarrow> ProcessedEmail list \<times> fs \<times> 'c db" where
  "process_all w uid profileUuid [] s = ([], s)"
| "process_all w uid profileUuid (m # ms) s =
     (let one = processEmailWithVerification w uid profileUuid m s;
          others = process_all w uid profileUuid ms (snd one)
      in (fst one # fst others, snd others))"

text \<open>\<^verbatim>\<open>listResponse.data.messages || []\<close>, as message ids.\<close>

definition listed :: "list_response \<Rightarrow> string list" where
  "listed listResponse = (case messages listResponse of None \<Rightarrow> [] | Some ids \<Rightarrow> ids)"

text \<open>The \<^verbatim>\<open>catch\<close> of \<^verbatim>\<open>getEmails\<close>.\<close>

definition caught :: "int option \<Rightarrow> emails_json" where
  "caught code =
     (if code = Some 401 then Emails_error 401 ''Token expired''
      else Emails_error 500 ''Failed to fetch emails'')"

definition fetch_emails ::
  "'c world \<Rightarrow> string \<Rightarrow> string \<Rightarrow> store \<Rightarrow> fs \<times> 'c db \<Rightarrow> emails_json \<times> store \<times> fs \<times> 'c db" where
  "fetch_emails w uid profileUuid st s =
     (case messages_list w of
        Rejects code \<Rightarrow> (caught code, st, s)
      | Resolves listResponse \<Rightarrow>
          (case listed listResponse of
             [] \<Rightarrow> (Emails [] 0 0 None, st, s)
           | i # ids \<Rightarrow>
               (case get_all (settles_first w) (messages_get w) (i # ids) of
                  Rejects code \<Rightarrow> (caught code, st, s)
                | Resolves emailDetails \<Rightarrow>
                    let done = process_all w uid profileUuid emailDetails s;
                        processedEmails = fst done
                    in (Emails processedEmails
                          (case resultSizeEstimate listResponse of
                             None \<Rightarrow> length processedEmails
                           | Some n \<Rightarrow> if n = 0 then length processedEmails else n)
                          (length (filter (\<lambda>e. \<not> isRead e) processedEmails))
                          (Some (length (filter (\<lambda>e. isInvoice e = Some True) processedEmails))),
                        st, snd done))))"

definition getEmails ::
  "oauth \<Rightarrow> 'c world \<Rightarrow> string option \<Rightarrow> store \<times> fs \<times> 'c db
     \<Rightarrow> emails_json \<times> store \<times> fs \<times> 'c db" where
  "getEmails g w cookie s =
     (let asked = getTokens cookie (fst s);
          found = getSession cookie (snd asked);
          st = snd found;
          disk = fst (snd s);
          d = snd (snd s)
      in (case fst (fst found) of
            Undefined \<Rightarrow> (Emails_error 401 ''Not authenticated'', st, disk, d)
          | Inherited \<Rightarrow>
              if fst asked = Undefined
              then (Emails_error 401 ''Not authenticated'', st, disk, d)
              else (Emails_outside_model, st, disk, d)
          | Own session \<Rightarrow>
              if fst asked = Undefined
              then (Emails_error 401 ''Not authenticated'', st, disk, d)
              else if truthy (profile_uuid session)
              then fetch_emails w (userId session) (or_empty (profile_uuid session)) st (disk, d)
              else
                let created = findOrCreateProfile (profile_resolves w) (profile_randomUUID w)
                                (userId session) (s_email session) (profiles d);
                    d' = d\<lparr>profiles := snd created\<rparr>
                in (case fst created of
                      None \<Rightarrow> (caught None, st, disk, d')
                    | Some uuid \<Rightarrow>
                        let loaded = loadStorage st
                        in (case backfill (storage_write_ok g) cookie uuid (fst loaded)
                                   (snd loaded) of
                              None \<Rightarrow> (Emails_outside_model, snd loaded, disk, d')
                            | Some st2 \<Rightarrow>
                                let st3 = st2\<lparr>objects := (objects st2)
                                            (snd (fst found) :=
                                               set_profile_uuid (or_empty cookie) uuid
                                                 (objects st2 (snd (fst found))))\<rparr>
                                in fetch_emails w (userId session) uuid st3 (disk, d')))))"

section \<open>Example data\<close>

text \<open>
  Concrete inputs on which the properties below are evaluated. The example parsers accept
  a body whose \<^verbatim>\<open>user_uuid\<close> has the shape of a UUID (eight, four, four, four and twelve
  hexadecimal digits) and reject any other.
\<close>

definition hex_digit :: "char \<Rightarrow> bool" where
  "hex_digit c = (c \<in> set ''0123456789abcdefABCDEF'')"

definition uuid_shaped :: "string \<Rightarrow> bool" where
  "uuid_shaped s =
     (length s = 36 \<and> s ! 8 = CHR ''-'' \<and> s ! 13 = CHR ''-'' \<and> s ! 18 = CHR ''-''
      \<and> s ! 23 = CHR ''-''
      \<and> list_all hex_digit (take 8 s) \<and> list_all hex_digit (take 4 (drop 9 s))
      \<and> list_all hex_digit (take 4 (drop 14 s)) \<and> list_all hex_digit (take 4 (drop 19 s))
      \<and> list_all hex_digit (drop 24 s))"

definition example_parse :: "string \<times> 'c \<Rightarrow> 'c parsed_mail option" where
  "example_parse posted =
     (if uuid_shaped (fst posted)
      then Some \<lparr>pm_uuid = None, pm_user_uuid = fst posted, pm_content = snd posted\<rparr>
      else None)"

definition example_partial_parse :: "string \<Rightarrow> 'c mail_patch option" where
  "example_partial_parse posted =
     (if uuid_shaped posted
      then Some \<lparr>mp_uuid = None, mp_user_uuid = Some posted, mp_content = (\<lambda>c. c)\<rparr>
      else None)"

definition uuid_A :: string where "uuid_A = ''11111111-1111-4111-8111-111111111111''"
definition uuid_B :: string where "uuid_B = ''22222222-2222-4222-8222-222222222222''"
definition uuid_M :: string where "uuid_M = ''33333333-3333-4333-8333-333333333333''"
definition uuid_X :: string where "uuid_X = ''44444444-4444-4444-8444-444444444444''"

definition profile_A :: profile where
  "profile_A = \<lparr>p_uuid = uuid_A, p_google_id = Some ''1001'', p_email = Some ''a@example.com'',
                 p_scanned = None\<rparr>"

definition profile_B :: profile where
  "profile_B = \<lparr>p_uuid = uuid_B, p_google_id = Some ''1002'', p_email = Some ''b@example.com'',
                 p_scanned = Some [uuid_M]\<rparr>"

definition mail_M :: "string mail" where
  "mail_M = \<lparr>m_uuid = uuid_M, m_user_uuid = uuid_A, m_content = ''invoice 17''\<rparr>"

definition db_example :: "string db" where
  "db_example = \<lparr>profiles = [profile_A, profile_B], mails = [mail_M]\<rparr>"

definition always :: "nat \<Rightarrow> bool" where
  "always k = True"


lemmas example_defs = db_example_def profile_A_def profile_B_def mail_M_def
  uuid_A_def uuid_B_def uuid_M_def uuid_X_def always_def

subsection \<open>A mailbox and messages\<close>

text \<open>
  The example decoder knows the base64 text of two strings. The example message is a
  \<^verbatim>\<open>multipart/mixed\<close> with an alternative of plain text and HTML and two PDF attachments.
  The forwarded message carries its PDF one level down, inside a \<^verbatim>\<open>multipart/mixed\<close> child
  of the payload.
\<close>

definition example_base64 :: "string \<Rightarrow> string" where
  "example_base64 s =
     (if s = ''PGI+aGk8L2I+'' then ''<b>hi</b>''
      else if s = ''MSA8IDIgPz4='' then ''1 < 2 ?>''
      else [])"

definition no_body :: "part_body option" where
  "no_body = Some \<lparr>b_size = Some 0, b_data = None, attachmentId = None\<rparr>"

definition text_plain_part :: part where
  "text_plain_part =
     Part ''text/plain'' [] []
       (Some \<lparr>b_size = Some 8, b_data = Some ''MSA8IDIgPz4='', attachmentId = None\<rparr>) None"

definition text_html_part :: part where
  "text_html_part =
     Part ''text/html'' [] []
       (Some \<lparr>b_size = Some 9, b_data = Some ''PGI-aGk8L2I-'', attachmentId = None\<rparr>) None"

definition pdf_part :: "string \<Rightarrow> string \<Rightarrow> part" where
  "pdf_part name attId =
     Part ''application/pdf'' name []
       (Some \<lparr>b_size = Some 5, b_data = None, attachmentId = Some attId\<rparr>) None"

definition plain_only_payload :: part where
  "plain_only_payload = Part ''multipart/alternative'' [] [] no_body (Some [text_plain_part])"

definition mixed_payload :: part where
  "mixed_payload =
     Part ''multipart/mixed'' []
       [(''From'', ''Ann <ann@example.com>''), (''subject'', ''Invoice 17'')]
       no_body
       (Some [Part ''multipart/alternative'' [] [] no_body
                (Some [text_plain_part, text_html_part]),
              pdf_part ''a.pdf'' ''att-1'', pdf_part ''b.pdf'' ''att-2''])"

definition example_message :: message where
  "example_message =
     \<lparr>msg_id = ''m1'', msg_threadId = ''t1'', payload = mixed_payload,
      labelIds = Some [''INBOX'', ''UNREAD''], msg_snippet = ''Invoice 17 attached''\<rparr>"

definition forwarded_payload :: part where
  "forwarded_payload =
     Part ''multipart/mixed'' []
       [(''From'', ''Ann <ann@example.com>''), (''subject'', ''Fwd: Invoice 17'')]
       no_body
       (Some [text_plain_part,
              Part ''multipart/mixed'' [] [] no_body
                (Some [text_html_part, pdf_part ''a.pdf'' ''att-1''])])"

definition forwarded_message :: message where
  "forwarded_message =
     \<lparr>msg_id = ''m3'', msg_threadId = ''t3'', payload = forwarded_payload,
      labelIds = Some [''INBOX''], msg_snippet = ''Fwd: Invoice 17''\<rparr>"

definition empty_disk :: fs where
  "empty_disk = \<lparr>directories = [], files = []\<rparr>"

lemmas mime_defs = no_body_def text_plain_part_def text_html_part_def pdf_part_def
  plain_only_payload_def mixed_payload_def example_message_def empty_disk_def
  forwarded_payload_def forwarded_message_def

subsection \<open>A store with one session, and Google\<close>

text \<open>
  One session \<open>sess_1\<close> of user \<open>1001\<close> with tokens, kept in the storage file (development)
  or in the cache only (production). \<open>google_ok\<close> answers every call; \<open>google_down\<close>
  rejects the revocation of a token.
\<close>

definition example_session :: session where
  "example_session =
     \<lparr>userId = ''1001'', s_email = Some ''a@example.com'', profile_uuid = Some uuid_A\<rparr>"

definition example_tokens :: token_set where
  "example_tokens = \<lparr>access_token = Some ''ya29.a0'', refresh_token = Some ''1//0g''\<rparr>"

definition example_storage :: DevStorage where
  "example_storage =
     \<lparr>sessions = [''sess_1'' \<mapsto> example_session], tokens = [''1001'' \<mapsto> example_tokens]\<rparr>"

definition dev_store :: store where
  "dev_store =
     \<lparr>production = False, objects = (\<lambda>r. empty_storage), next_object = 1, storageCache = 0,
      storage_file = Stored example_storage\<rparr>"

definition production_store :: store where
  "production_store =
     \<lparr>production = True, objects = (\<lambda>r. example_storage), next_object = 1, storageCache = 0,
      storage_file = No_file\<rparr>"

definition google_ok :: oauth where
  "google_ok =
     \<lparr>verifyIdToken = (\<lambda>cred. Resolves (Some \<lparr>sub = Some ''1001'',
                                                  payload_email = Some ''a@example.com''\<rparr>)),
      getToken = (\<lambda>c. Resolves \<lparr>access_token = Some ''ya29.b1'', refresh_token = None\<rparr>),
      revokeToken = (\<lambda>t. Resolves ()),
      storage_write_ok = True,
      new_session_id = ''sess_2'',
      generateAuthUrl = (\<lambda>s. ''https://accounts.google.com/o/oauth2/v2/auth?state='' @ s)\<rparr>"

definition google_down :: oauth where
  "google_down = google_ok\<lparr>revokeToken := (\<lambda>t. Rejects (Some 400))\<rparr>"




lemmas auth_defs = example_session_def example_tokens_def example_storage_def dev_store_def
  production_store_def google_ok_def google_down_def

subsection \<open>A world for the mailbox fetch\<close>

text \<open>
  The mailbox lists two messages, each with the payload of the example message. The
  fetch of attachment \<open>att-1\<close> is rejected (every other one is served) and the
  classifier is unreachable, for every message. In \<open>gmail_get_down\<close> the mailbox lists
  the same two messages and rejects every \<^verbatim>\<open>messages.get\<close> with code 503. In
  \<open>gmail_token_expired\<close> the call for \<open>m1\<close> is rejected with code 503 and the call for
  \<open>m2\<close> with code 401, and the second is the one that rejects first.
\<close>

definition classifier_down :: "string verifier" where
  "classifier_down =
     \<lparr>classifier = (\<lambda>rq. Network_error),
      mails_delivery = Delivered,
      MailSchema_parse = (\<lambda>md. None),
      mails_resolves = always,
      mail_randomUUID = uuid_M\<rparr>"

definition example_world :: "string world" where
  "example_world =
     \<lparr>base64_utf8 = example_base64,
      match_from = (\<lambda>s. None),
      trim = (\<lambda>s. s),
      encodeURIComponent = Some,
      attachments_get = (\<lambda>messageId attId.
         if attId = ''att-1'' then Rejects (Some 500) else Resolves (Some ''aGVsbG8='')),
      Buffer_from = (\<lambda>d. if d = ''aGVsbG8='' then Some ''hello'' else None),
      cwd = ''/app'',
      mkdirSync = (\<lambda>path. True),
      writeFileSync = (\<lambda>path. True),
      strip_html = (\<lambda>s. s),
      messages_list = Resolves \<lparr>messages = Some [''m1'', ''m2''], resultSizeEstimate = Some 2\<rparr>,
      messages_get = (\<lambda>i. Resolves (example_message\<lparr>msg_id := i\<rparr>)),
      verify_delivery = (\<lambda>i. Delivered),
      verifier = (\<lambda>i. classifier_down),
      profile_resolves = always,
      profile_randomUUID = uuid_X,
      settles_first = 0\<rparr>"

definition gmail_get_down :: "string world" where
  "gmail_get_down = example_world\<lparr>messages_get := (\<lambda>i. Rejects (Some 503))\<rparr>"

definition gmail_token_expired :: "string world" where
  "gmail_token_expired =
     example_world\<lparr>messages_get := (\<lambda>i. if i = ''m2'' then Rejects (Some 401)
                                           else Rejects (Some 503)),
                    settles_first := 1\<rparr>"

lemmas world_defs = classifier_down_def example_world_def gmail_get_down_def
  gmail_token_expired_def

section \<open>Properties of the document store\<close>

subsection \<open>Collection operations\<close>

lemma deleteOne_subset: "set (snd (deleteOne P xs)) \<subseteq> set xs"
  by (induction xs) auto

lemma deleteOne_keeps: "x \<in> set xs \<Longrightarrow> \<not> P x \<Longrightarrow> x \<in> set (snd (deleteOne P xs))"
  by (induction xs) auto

lemma deleteOne_count: "fst (deleteOne P xs) = (if list_ex P xs then 1 else 0)"
  by (induction xs) auto

lemma deleteOne_length: "list_ex P xs \<Longrightarrow> Suc (length (snd (deleteOne P xs))) = length xs"
  by (induction xs) auto

lemma deleteOne_none: "\<not> list_ex P xs \<Longrightarrow> snd (deleteOne P xs) = xs"
  by (induction xs) auto

lemma findOne_None_iff: "findOne P xs = None \<longleftrightarrow> \<not> list_ex P xs"
  by (auto simp add: findOne_def find_None_iff list_ex_iff)

lemma findOne_Some_mem: "findOne P xs = Some x \<Longrightarrow> x \<in> set xs \<and> P x"
  by (auto simp: findOne_def find_Some_iff)

lemma mails_owned_iff:
  "mails_owned d \<longleftrightarrow> (\<forall>m \<in> set (mails d). \<exists>p \<in> set (profiles d). p_uuid p = m_user_uuid m)"
  by (simp add: mails_owned_def owner_exists_def list_all_iff list_ex_iff)

lemma pull_uuid: "p_uuid (pull_scanned i p) = p_uuid p"
  by (simp add: pull_scanned_def)

lemma POST_owned: "mails_owned d \<Longrightarrow> mails_owned (snd (mails_POST parse u ok d rq))"
  by (auto simp: mails_POST_def mails_owned_iff insertOne_def Let_def
      split: option.splits dest: findOne_Some_mem)

lemma updateMany_uuids:
  "(\<exists>p\<in>set (updateMany (scanned_has i) (pull_scanned i) ps). p_uuid p = u)
     \<longleftrightarrow> (\<exists>p\<in>set ps. p_uuid p = u)"
  by (induction ps) (auto simp: updateMany_def pull_uuid)

lemma mDELETE_owned:
  assumes "mails_owned d"
  shows "mails_owned (snd (mails_id_DELETE ok d i))"
proof -
  have sub: "set (snd (deleteOne (\<lambda>m. m_uuid m = i) (mails d))) \<subseteq> set (mails d)"
    by (rule deleteOne_subset)
  have own: "\<And>m. m \<in> set (mails d) \<Longrightarrow>
      \<exists>p\<in>set (updateMany (scanned_has i) (pull_scanned i) (profiles d)). p_uuid p = m_user_uuid m"
    using assms by (simp add: updateMany_uuids mails_owned_iff)
  show ?thesis
    using assms sub own
    by (auto simp: mails_id_DELETE_def mails_owned_iff Let_def split: option.splits)
qed

lemma pDELETE_owned:
  assumes "mails_owned d"
  shows "mails_owned (snd (profiles_id_DELETE ok d i))"
proof -
  have keep: "\<And>p. p \<in> set (profiles d) \<Longrightarrow> p_uuid p \<noteq> i \<Longrightarrow>
      p \<in> set (snd (deleteOne (\<lambda>p. p_uuid p = i) (profiles d)))"
    by (rule deleteOne_keeps) auto
  show ?thesis
    using assms keep
    by (fastforce simp: profiles_id_DELETE_def mails_owned_iff Let_def deleteMany_def)
qed

lemma POST_no_profile:
  assumes "request_json = Some posted" "parse posted = Some v"
    and "\<not> list_ex (\<lambda>p. p_uuid p = pm_user_uuid v) (profiles d)"
  shows "snd (mails_POST parse randomUUID resolves d request_json) = d"
    and "resolves 0 \<Longrightarrow> resolves 1 \<Longrightarrow>
      fst (mails_POST parse randomUUID resolves d request_json)
        = Response 404 (Error_json ''Profile not found'')"
  using assms by (simp_all add: mails_POST_def findOne_None_iff[THEN iffD2] Let_def)

lemma cascade:
  "resolves 0 \<Longrightarrow> resolves 1 \<Longrightarrow>
    \<not> list_ex (\<lambda>m. m_user_uuid m = i) (mails (snd (profiles_id_DELETE resolves d i)))"
  by (simp add: profiles_id_DELETE_def Let_def deleteMany_def list_ex_iff)

subsection \<open>Mails and their owning profile\<close>

text \<open>
  The handlers that look the profile up, or delete, keep the mail records owned. If every
  mail record is owned by an existing profile (a profile whose \<^verbatim>\<open>uuid\<close> equals the
  record's \<^verbatim>\<open>user_uuid\<close>), this still holds after \<^verbatim>\<open>POST /api/mails\<close>, after
  \<^verbatim>\<open>DELETE /api/mails/[id]\<close> and after \<^verbatim>\<open>DELETE /api/profiles/[id]\<close>, whatever the request
  and whichever database call fails. \<^verbatim>\<open>POST /api/mails\<close> with a body that passes validation
  and names no existing profile inserts nothing, and answers 404 when the database calls
  resolve. Deleting a profile leaves no mail record whose \<^verbatim>\<open>user_uuid\<close> is the deleted id.
\<close>

theorem mails_owned_preserved:
  assumes "mails_owned d"
  shows "mails_owned (snd (mails_POST parse randomUUID resolves d request_json))
    \<and> mails_owned (snd (mails_id_DELETE resolves d params_id))
    \<and> mails_owned (snd (profiles_id_DELETE resolves d params_id))
    \<and> (request_json = Some posted \<and> parse posted = Some v
          \<and> \<not> list_ex (\<lambda>p. p_uuid p = pm_user_uuid v) (profiles d)
        \<longrightarrow> snd (mails_POST parse randomUUID resolves d request_json) = d
          \<and> (resolves 0 \<and> resolves 1 \<longrightarrow>
                fst (mails_POST parse randomUUID resolves d request_json)
                  = Response 404 (Error_json ''Profile not found'')))
    \<and> (resolves 0 \<and> resolves 1 \<longrightarrow>
          \<not> list_ex (\<lambda>m. m_user_uuid m = params_id)
               (mails (snd (profiles_id_DELETE resolves d params_id))))"
proof (intro conjI impI)
  show "mails_owned (snd (mails_POST parse randomUUID resolves d request_json))"
    using assms by (rule POST_owned)
  show "mails_owned (snd (mails_id_DELETE resolves d params_id))"
    using assms by (rule mDELETE_owned)
  show "mails_owned (snd (profiles_id_DELETE resolves d params_id))"
    using assms by (rule pDELETE_owned)
next
  assume h: "request_json = Some posted \<and> parse posted = Some v
    \<and> \<not> list_ex (\<lambda>p. p_uuid p = pm_user_uuid v) (profiles d)"
  then show "snd (mails_POST parse randomUUID resolves d request_json) = d"
    by (simp add: POST_no_profile(1))
  assume "resolves 0 \<and> resolves 1"
  with h show "fst (mails_POST parse randomUUID resolves d request_json)
      = Response 404 (Error_json ''Profile not found'')"
    by (simp add: POST_no_profile(2))
next
  assume "resolves 0 \<and> resolves 1"
  then show "\<not> list_ex (\<lambda>m. m_user_uuid m = params_id)
       (mails (snd (profiles_id_DELETE resolves d params_id)))"
    by (simp add: cascade)
qed

text \<open>
  The theorem at the example store: a post for the unknown profile \<open>uuid_X\<close> is answered
  404 and changes nothing; deleting profile \<open>uuid_A\<close> deletes its mail.
\<close>

theorem mails_owned_preserved_witness:
  "mails_owned db_example
   \<and> mails_POST example_parse uuid_M always db_example (Some (uuid_X, ''invoice 18''))
       = (Response 404 (Error_json ''Profile not found''), db_example)
   \<and> mails (snd (profiles_id_DELETE always db_example uuid_A)) = []
   \<and> mails_owned (snd (profiles_id_DELETE always db_example uuid_A))
   \<and> mails_owned (snd (mails_id_DELETE always db_example uuid_M))"
proof -
  have own: "mails_owned db_example"
    by (simp add: mails_owned_def owner_exists_def example_defs)
  have parsed: "example_parse (uuid_X, ''invoice 18'')
      = Some \<lparr>pm_uuid = None, pm_user_uuid = uuid_X, pm_content = ''invoice 18''\<rparr>"
    by (simp add: example_parse_def uuid_shaped_def hex_digit_def uuid_X_def)
  have absent: "\<not> list_ex (\<lambda>p. p_uuid p = uuid_X) (profiles db_example)"
    by (simp add: example_defs)
  have mails: "mails (snd (profiles_id_DELETE always db_example uuid_A)) = []"
    by (simp add: profiles_id_DELETE_def deleteMany_def example_defs)
  from mails_owned_preserved [OF own, of example_parse uuid_M always
      "Some (uuid_X, ''invoice 18'')" uuid_A "(uuid_X, ''invoice 18'')"
      "\<lparr>pm_uuid = None, pm_user_uuid = uuid_X, pm_content = ''invoice 18''\<rparr>"]
    mails_owned_preserved [OF own, of example_parse uuid_M always
      "Some (uuid_X, ''invoice 18'')" uuid_M]
    own parsed absent mails
  show ?thesis
    by (simp add: always_def prod_eq_iff)
qed

text \<open>
  Claim C4 says that every operation on mail records keeps each record owned by an
  existing profile. \<^verbatim>\<open>PUT /api/mails/[id]\<close> is such an operation and does not: it
  \<^verbatim>\<open>$set\<close>s a validated \<^verbatim>\<open>user_uuid\<close> without the lookup that \<^verbatim>\<open>POST /api/mails\<close> makes
  under the comment \<^verbatim>\<open>Check if the associated profile exists\<close>. On the example store every
  mail is owned and no profile has the uuid \<open>uuid_X\<close>. The \<^verbatim>\<open>PUT\<close> of \<open>uuid_X\<close> as the
  \<^verbatim>\<open>user_uuid\<close> of mail \<open>uuid_M\<close> is answered 200 with the updated mail, and the mail is
  then owned by no profile; the \<^verbatim>\<open>POST\<close> of a mail for \<open>uuid_X\<close> is answered 404 and
  inserts nothing.
\<close>

theorem mails_id_PUT_orphans_mail:
  "mails_owned db_example
   \<and> findOne (\<lambda>p. p_uuid p = uuid_X) (profiles db_example) = None
   \<and> mails_id_PUT example_partial_parse always db_example uuid_M (Some uuid_X)
       = (Response 200 (Mail_json (mail_M\<lparr>m_user_uuid := uuid_X\<rparr>)),
          \<lparr>profiles = [profile_A, profile_B], mails = [mail_M\<lparr>m_user_uuid := uuid_X\<rparr>]\<rparr>)
   \<and> mails_owned
         (snd (mails_id_PUT example_partial_parse always db_example uuid_M (Some uuid_X)))
       = False
   \<and> mails_POST example_parse uuid_M always db_example (Some (uuid_X, ''invoice 18''))
       = (Response 404 (Error_json ''Profile not found''), db_example)"
proof -
  have put: "mails_id_PUT example_partial_parse always db_example uuid_M (Some uuid_X)
       = (Response 200 (Mail_json (mail_M\<lparr>m_user_uuid := uuid_X\<rparr>)),
          \<lparr>profiles = [profile_A, profile_B], mails = [mail_M\<lparr>m_user_uuid := uuid_X\<rparr>]\<rparr>)"
    by (simp add: mails_id_PUT_def example_partial_parse_def uuid_shaped_def hex_digit_def
        set_fields_def findOne_def example_defs)
  have own: "mails_owned db_example"
    by (simp add: mails_owned_def owner_exists_def example_defs)
  have none: "findOne (\<lambda>p. p_uuid p = uuid_X) (profiles db_example) = None"
    by (simp add: findOne_def example_defs)
  have orphan: "mails_owned
         (snd (mails_id_PUT example_partial_parse always db_example uuid_M (Some uuid_X)))
       = False"
    unfolding put by (simp add: mails_owned_def owner_exists_def example_defs)
  have post: "mails_POST example_parse uuid_M always db_example (Some (uuid_X, ''invoice 18''))
       = (Response 404 (Error_json ''Profile not found''), db_example)"
    by (simp add: mails_POST_def example_parse_def uuid_shaped_def hex_digit_def findOne_def
        example_defs)
  show ?thesis
    by (rule conjI[OF own conjI[OF none conjI[OF put conjI[OF orphan post]]]])
qed

subsection \<open>Scanned references\<close>

text \<open>
  Claim C8 says that deleting a profile also purges the uuids of the cascade-deleted
  mails from every profile's \<^verbatim>\<open>scanned\<close> array. The handler does not: on the example
  store, where no scanned reference dangles, deleting profile \<open>uuid_A\<close> deletes its mail
  \<open>uuid_M\<close> and leaves \<open>uuid_M\<close> in the \<^verbatim>\<open>scanned\<close> array of profile \<open>uuid_B\<close>.
\<close>

theorem profiles_id_DELETE_leaves_scanned_reference:
  "no_dangling_scanned db_example
   \<and> profiles_id_DELETE always db_example uuid_A
       = (Response 200 (Message_json ''Profile deleted''),
          \<lparr>profiles = [profile_B], mails = []\<rparr>)
   \<and> scanned_has uuid_M profile_B
   \<and> \<not> no_dangling_scanned (snd (profiles_id_DELETE always db_example uuid_A))"
proof -
  have "profiles_id_DELETE always db_example uuid_A
       = (Response 200 (Message_json ''Profile deleted''),
          \<lparr>profiles = [profile_B], mails = []\<rparr>)"
    by (simp add: profiles_id_DELETE_def deleteMany_def example_defs)
  then show ?thesis
    by (simp add: no_dangling_scanned_def scanned_ids_def mail_exists_def scanned_has_def
        example_defs)
qed

lemma mail_exists_iff: "mail_exists ms i \<longleftrightarrow> (\<exists>m\<in>set ms. m_uuid m = i)"
  by (simp add: mail_exists_def list_ex_iff)

lemma scanned_ids_updateMany:
  "scanned_ids (if scanned_has i p then pull_scanned i p else p) = removeAll i (scanned_ids p)"
  by (auto simp: scanned_has_def pull_scanned_def scanned_ids_def split: option.splits)

lemma scanned_has_ids: "scanned_has i p \<longleftrightarrow> i \<in> set (scanned_ids p)"
  by (simp add: scanned_has_def scanned_ids_def split: option.splits)

lemma updateMany_scanned:
  assumes "q \<in> set (updateMany (scanned_has i) (pull_scanned i) ps)"
  shows "\<exists>p\<in>set ps. scanned_ids q = removeAll i (scanned_ids p)"
proof -
  from assms obtain p where p: "p \<in> set ps"
    and q: "q = (if scanned_has i p then pull_scanned i p else p)"
    unfolding updateMany_def by auto
  from q have "scanned_ids q = removeAll i (scanned_ids p)"
    by (simp only: scanned_ids_updateMany)
  with p show ?thesis by blast
qed

lemma pulled_everywhere:
  "list_all (\<lambda>p. \<not> scanned_has i p) (updateMany (scanned_has i) (pull_scanned i) ps)"
  unfolding list_all_iff
proof
  fix q
  assume "q \<in> set (updateMany (scanned_has i) (pull_scanned i) ps)"
  then obtain p where "scanned_ids q = removeAll i (scanned_ids p)"
    using updateMany_scanned by blast
  then show "\<not> scanned_has i q"
    by (simp add: scanned_has_ids)
qed

lemma mail_exists_deleteOne:
  "mail_exists ms r \<Longrightarrow> r \<noteq> i \<Longrightarrow> mail_exists (snd (deleteOne (\<lambda>m. m_uuid m = i) ms)) r"
  unfolding mail_exists_iff using deleteOne_keeps[of _ ms "\<lambda>m. m_uuid m = i"] by auto

lemma no_dangling_iff:
  "no_dangling_scanned d \<longleftrightarrow>
     (\<forall>p\<in>set (profiles d). \<forall>r\<in>set (scanned_ids p). mail_exists (mails d) r)"
  by (simp add: no_dangling_scanned_def list_all_iff)

lemma no_dangling_pull:
  assumes "no_dangling_scanned d"
  shows "no_dangling_scanned
           (d\<lparr>profiles := updateMany (scanned_has i) (pull_scanned i) (profiles d)\<rparr>)"
  unfolding no_dangling_iff
proof (intro ballI)
  fix q r
  assume "q \<in> set (profiles (d\<lparr>profiles := updateMany (scanned_has i) (pull_scanned i) (profiles d)\<rparr>))"
    and r: "r \<in> set (scanned_ids q)"
  then obtain p where "p \<in> set (profiles d)" "scanned_ids q = removeAll i (scanned_ids p)"
    using updateMany_scanned[of q i "profiles d"] by auto
  with r assms show "mail_exists
      (mails (d\<lparr>profiles := updateMany (scanned_has i) (pull_scanned i) (profiles d)\<rparr>)) r"
    by (auto simp: no_dangling_iff)
qed

lemma no_dangling_pull_delete:
  assumes "no_dangling_scanned d"
  shows "no_dangling_scanned
           (d\<lparr>profiles := updateMany (scanned_has i) (pull_scanned i) (profiles d),
              mails := snd (deleteOne (\<lambda>m. m_uuid m = i) (mails d))\<rparr>)"
  unfolding no_dangling_iff
proof (intro ballI)
  fix q r
  assume "q \<in> set (profiles (d\<lparr>profiles := updateMany (scanned_has i) (pull_scanned i) (profiles d),
              mails := snd (deleteOne (\<lambda>m. m_uuid m = i) (mails d))\<rparr>))"
    and r: "r \<in> set (scanned_ids q)"
  then obtain p where "p \<in> set (profiles d)" "scanned_ids q = removeAll i (scanned_ids p)"
    using updateMany_scanned[of q i "profiles d"] by auto
  with r assms have "mail_exists (mails d) r" "r \<noteq> i"
    by (auto simp: no_dangling_iff)
  then show "mail_exists
      (mails (d\<lparr>profiles := updateMany (scanned_has i) (pull_scanned i) (profiles d),
              mails := snd (deleteOne (\<lambda>m. m_uuid m = i) (mails d))\<rparr>)) r"
    by (simp add: mail_exists_deleteOne)
qed

lemma mDELETE_no_dangling:
  "no_dangling_scanned d \<Longrightarrow> no_dangling_scanned (snd (mails_id_DELETE resolves d i))"
  using no_dangling_pull[of d i] no_dangling_pull_delete[of d i]
  by (simp add: mails_id_DELETE_def Let_def split: option.splits)

lemma mDELETE_absent:
  assumes "\<not> mail_exists (mails d) i"
  shows "snd (mails_id_DELETE resolves d i) = d"
    and "resolves 0 \<Longrightarrow> resolves 1 \<Longrightarrow>
      fst (mails_id_DELETE resolves d i) = Response 404 (Error_json ''Mail not found'')"
  using assms
  by (simp_all add: mails_id_DELETE_def mail_exists_def findOne_None_iff[THEN iffD2])

lemma mDELETE_order:
  "mails (snd (mails_id_DELETE resolves d i)) \<noteq> mails d \<Longrightarrow>
     list_all (\<lambda>p. \<not> scanned_has i p) (profiles (snd (mails_id_DELETE resolves d i)))"
  by (auto simp: mails_id_DELETE_def Let_def pulled_everywhere split: option.splits if_splits)

lemma mDELETE_present:
  assumes "mail_exists (mails d) i" "resolves 0" "resolves 1" "resolves 2" "resolves 3"
  shows "mails_id_DELETE resolves d i =
           (Response 200 (Message_json ''Mail deleted''),
            \<lparr>profiles = updateMany (scanned_has i) (pull_scanned i) (profiles d),
             mails = snd (deleteOne (\<lambda>m. m_uuid m = i) (mails d))\<rparr>)"
proof -
  from assms(1) obtain m where "findOne (\<lambda>m. m_uuid m = i) (mails d) = Some m"
    using findOne_None_iff[of "\<lambda>m. m_uuid m = i" "mails d"]
    by (auto simp: mail_exists_def)
  then show ?thesis
    using assms by (simp add: mails_id_DELETE_def Let_def)
qed

text \<open>
  Claim C10. \<^verbatim>\<open>DELETE /api/mails/[id]\<close>: when no mail has the uuid, the store is left as
  it was, and the answer is 404 when the lookup resolves. When a mail has it and the
  database calls resolve, the answer is 200, the uuid is pulled from the \<^verbatim>\<open>scanned\<close>
  array of every profile and one mail with that uuid is deleted. The pull comes first:
  in every outcome, also when a database call fails, the mail collection has changed only
  if no profile's \<^verbatim>\<open>scanned\<close> array holds the uuid any more. And if no scanned reference
  dangled before the request, none dangles after it.
\<close>

theorem mails_id_DELETE_pulls_then_deletes:
  "(\<not> mail_exists (mails d) params_id \<longrightarrow>
       snd (mails_id_DELETE resolves d params_id) = d
       \<and> (resolves 0 \<and> resolves 1 \<longrightarrow>
            fst (mails_id_DELETE resolves d params_id)
              = Response 404 (Error_json ''Mail not found'')))
   \<and> (mail_exists (mails d) params_id
        \<and> resolves 0 \<and> resolves 1 \<and> resolves 2 \<and> resolves 3 \<longrightarrow>
       mails_id_DELETE resolves d params_id =
         (Response 200 (Message_json ''Mail deleted''),
          \<lparr>profiles = updateMany (scanned_has params_id) (pull_scanned params_id) (profiles d),
           mails = snd (deleteOne (\<lambda>m. m_uuid m = params_id) (mails d))\<rparr>)
       \<and> Suc (length (mails (snd (mails_id_DELETE resolves d params_id)))) = length (mails d))
   \<and> (mails (snd (mails_id_DELETE resolves d params_id)) \<noteq> mails d \<longrightarrow>
       list_all (\<lambda>p. \<not> scanned_has params_id p)
         (profiles (snd (mails_id_DELETE resolves d params_id))))
   \<and> (no_dangling_scanned d \<longrightarrow>
       no_dangling_scanned (snd (mails_id_DELETE resolves d params_id)))"
proof (intro conjI impI)
  assume a: "\<not> mail_exists (mails d) params_id"
  then show "snd (mails_id_DELETE resolves d params_id) = d"
    by (rule mDELETE_absent(1))
  assume "resolves 0 \<and> resolves 1"
  with a show "fst (mails_id_DELETE resolves d params_id)
      = Response 404 (Error_json ''Mail not found'')"
    by (simp add: mDELETE_absent(2))
next
  assume p: "mail_exists (mails d) params_id
        \<and> resolves 0 \<and> resolves 1 \<and> resolves 2 \<and> resolves 3"
  then show eq: "mails_id_DELETE resolves d params_id =
         (Response 200 (Message_json ''Mail deleted''),
          \<lparr>profiles = updateMany (scanned_has params_id) (pull_scanned params_id) (profiles d),
           mails = snd (deleteOne (\<lambda>m. m_uuid m = params_id) (mails d))\<rparr>)"
    by (simp add: mDELETE_present)
  from p have "list_ex (\<lambda>m. m_uuid m = params_id) (mails d)"
    by (simp add: mail_exists_def)
  then show "Suc (length (mails (snd (mails_id_DELETE resolves d params_id)))) = length (mails d)"
    unfolding eq by (simp add: deleteOne_length)
next
  assume "mails (snd (mails_id_DELETE resolves d params_id)) \<noteq> mails d"
  then show "list_all (\<lambda>p. \<not> scanned_has params_id p)
         (profiles (snd (mails_id_DELETE resolves d params_id)))"
    by (rule mDELETE_order)
next
  assume "no_dangling_scanned d"
  then show "no_dangling_scanned (snd (mails_id_DELETE resolves d params_id))"
    by (rule mDELETE_no_dangling)
qed

text \<open>
  The theorem at the example store: deleting mail \<open>uuid_M\<close> empties the \<^verbatim>\<open>scanned\<close> array
  of profile \<open>uuid_B\<close>; deleting the unknown \<open>uuid_X\<close> is answered 404.
\<close>

theorem mails_id_DELETE_pulls_then_deletes_witness:
  "mails_id_DELETE always db_example uuid_M =
     (Response 200 (Message_json ''Mail deleted''),
      \<lparr>profiles = [profile_A, profile_B\<lparr>p_scanned := Some []\<rparr>], mails = []\<rparr>)
   \<and> mails_id_DELETE always db_example uuid_X
       = (Response 404 (Error_json ''Mail not found''), db_example)
   \<and> no_dangling_scanned (snd (mails_id_DELETE always db_example uuid_M))"
proof -
  have present: "mail_exists (mails db_example) uuid_M"
    by (simp add: mail_exists_def example_defs)
  have absent: "\<not> mail_exists (mails db_example) uuid_X"
    by (simp add: mail_exists_def example_defs)
  have nd: "no_dangling_scanned db_example"
    by (simp add: no_dangling_scanned_def scanned_ids_def mail_exists_def example_defs)
  have upd: "updateMany (scanned_has uuid_M) (pull_scanned uuid_M) (profiles db_example)
      = [profile_A, profile_B\<lparr>p_scanned := Some []\<rparr>]"
    by (simp add: updateMany_def scanned_has_def pull_scanned_def example_defs)
  have del: "snd (deleteOne (\<lambda>m. m_uuid m = uuid_M) (mails db_example)) = []"
    by (simp add: example_defs)
  note found = mails_id_DELETE_pulls_then_deletes [of db_example uuid_M always]
  note missing = mails_id_DELETE_pulls_then_deletes [of db_example uuid_X always]
  from found present upd del
  have r1: "mails_id_DELETE always db_example uuid_M =
     (Response 200 (Message_json ''Mail deleted''),
      \<lparr>profiles = [profile_A, profile_B\<lparr>p_scanned := Some []\<rparr>], mails = []\<rparr>)"
    by (simp add: always_def)
  from missing absent
  have r2: "mails_id_DELETE always db_example uuid_X
       = (Response 404 (Error_json ''Mail not found''), db_example)"
    by (simp add: always_def prod_eq_iff)
  from found nd
  have r3: "no_dangling_scanned (snd (mails_id_DELETE always db_example uuid_M))"
    by simp
  show ?thesis
    by (rule conjI[OF r1 conjI[OF r2 r3]])
qed

section \<open>Properties of message processing\<close>

subsection \<open>Body resolution\<close>

lemma nested_parts_find:
  "nested_parts dec ps =
     (case find (\<lambda>b. b \<noteq> []) (map (getEmailBody dec) ps) of None \<Rightarrow> [] | Some b \<Rightarrow> b)"
  by (induction ps) simp_all

lemma escape_one_pass:
  "replace_all (CHR ''>'') ''&gt;'' (replace_all (CHR ''<'') ''&lt;'' t) =
     concat (map (\<lambda>c. if c = CHR ''<'' then ''&lt;''
                        else if c = CHR ''>'' then ''&gt;'' else [c]) t)"
  by (induction t) (simp_all add: replace_all_def)

lemma getEmailBody_unfold:
  "getEmailBody dec pl =
     (case root_data pl of
        Some d \<Rightarrow> decodeBase64Url dec d
      | None \<Rightarrow>
          (case parts pl of
             None \<Rightarrow> []
           | Some children \<Rightarrow>
               (case part_data (find (\<lambda>part. mimeType part = ''text/html'') children) of
                  Some d \<Rightarrow> decodeBase64Url dec d
                | None \<Rightarrow>
                    (case part_data (find (\<lambda>part. mimeType part = ''text/plain'') children) of
                       Some d \<Rightarrow> plain_text_html (decodeBase64Url dec d)
                     | None \<Rightarrow> nested_parts dec children))))"
  by (cases pl) (simp split: option.splits)

text \<open>
  Claim C3. The body of a payload is resolved in this order.
  \<^enum> If the root part has a body of positive size with non-empty data, the body is that
    data, base64url-decoded.
  \<^enum> Otherwise, if the first child of type \<^verbatim>\<open>text/html\<close> has data, the body is that data,
    decoded.
  \<^enum> Otherwise, if the first child of type \<^verbatim>\<open>text/plain\<close> has data, the body is that
    data, decoded, with every \<^verbatim>\<open><\<close> replaced by \<^verbatim>\<open>&lt;\<close> and every \<^verbatim>\<open>>\<close> by
    \<^verbatim>\<open>&gt;\<close>, inside a \<^verbatim>\<open>div\<close> styled \<^verbatim>\<open>white-space: pre-wrap; font-family: monospace\<close>.
  \<^enum> Otherwise the body is the first non-empty body among the children's resolved
    bodies, in order, and the empty string if there is none.
  \<^enum> A payload with neither a body nor children resolves to the empty string.
  The function is total: it never raises.
\<close>

theorem getEmailBody_resolution:
  "(body pl = Some b \<and> b_size b = Some n \<and> 0 < n \<and> b_data b = Some d \<and> d \<noteq> []
      \<longrightarrow> getEmailBody dec pl = decodeBase64Url dec d)
   \<and> (root_data pl = None \<and> parts pl = Some children
        \<and> part_data (find (\<lambda>part. mimeType part = ''text/html'') children) = Some h
      \<longrightarrow> getEmailBody dec pl = decodeBase64Url dec h)
   \<and> (root_data pl = None \<and> parts pl = Some children
        \<and> part_data (find (\<lambda>part. mimeType part = ''text/html'') children) = None
        \<and> part_data (find (\<lambda>part. mimeType part = ''text/plain'') children) = Some t
      \<longrightarrow> getEmailBody dec pl =
            ''<div style='' @ [CHR 0x22] @ ''white-space: pre-wrap; font-family: monospace;''
              @ [CHR 0x22] @ ''>''
              @ concat (map (\<lambda>c. if c = CHR ''<'' then ''&lt;''
                                  else if c = CHR ''>'' then ''&gt;'' else [c])
                          (decodeBase64Url dec t))
              @ ''</div>'')
   \<and> (root_data pl = None \<and> parts pl = Some children
        \<and> part_data (find (\<lambda>part. mimeType part = ''text/html'') children) = None
        \<and> part_data (find (\<lambda>part. mimeType part = ''text/plain'') children) = None
      \<longrightarrow> getEmailBody dec pl =
            (case find (\<lambda>b. b \<noteq> []) (map (getEmailBody dec) children) of
               None \<Rightarrow> [] | Some resolved \<Rightarrow> resolved))
   \<and> (root_data pl = None \<and> parts pl = None \<longrightarrow> getEmailBody dec pl = [])"
proof (intro conjI impI)
  assume "body pl = Some b \<and> b_size b = Some n \<and> 0 < n \<and> b_data b = Some d \<and> d \<noteq> []"
  then have "root_data pl = Some d"
    by (simp add: root_data_def truthy_def)
  then show "getEmailBody dec pl = decodeBase64Url dec d"
    by (simp add: getEmailBody_unfold)
next
  assume "root_data pl = None \<and> parts pl = Some children
        \<and> part_data (find (\<lambda>part. mimeType part = ''text/html'') children) = Some h"
  then show "getEmailBody dec pl = decodeBase64Url dec h"
    by (simp add: getEmailBody_unfold)
next
  assume "root_data pl = None \<and> parts pl = Some children
        \<and> part_data (find (\<lambda>part. mimeType part = ''text/html'') children) = None
        \<and> part_data (find (\<lambda>part. mimeType part = ''text/plain'') children) = Some t"
  then have "getEmailBody dec pl = plain_text_html (decodeBase64Url dec t)"
    by (simp add: getEmailBody_unfold)
  then show "getEmailBody dec pl =
            ''<div style='' @ [CHR 0x22] @ ''white-space: pre-wrap; font-family: monospace;''
              @ [CHR 0x22] @ ''>''
              @ concat (map (\<lambda>c. if c = CHR ''<'' then ''&lt;''
                                  else if c = CHR ''>'' then ''&gt;'' else [c])
                          (decodeBase64Url dec t))
              @ ''</div>''"
    by (simp only: plain_text_html_def escape_one_pass)
next
  assume "root_data pl = None \<and> parts pl = Some children
        \<and> part_data (find (\<lambda>part. mimeType part = ''text/html'') children) = None
        \<and> part_data (find (\<lambda>part. mimeType part = ''text/plain'') children) = None"
  then show "getEmailBody dec pl =
            (case find (\<lambda>b. b \<noteq> []) (map (getEmailBody dec) children) of
               None \<Rightarrow> [] | Some resolved \<Rightarrow> resolved)"
    by (simp add: getEmailBody_unfold nested_parts_find)
next
  assume "root_data pl = None \<and> parts pl = None"
  then show "getEmailBody dec pl = []"
    by (simp add: getEmailBody_unfold)
qed

text \<open>
  The theorem on the example parts: an HTML leaf, a \<^verbatim>\<open>multipart/alternative\<close> holding
  only \<^verbatim>\<open>text/plain\<close>, a \<^verbatim>\<open>multipart/mixed\<close> whose first child is a
  \<^verbatim>\<open>multipart/alternative\<close>, and an attachment part without inline data.
\<close>

theorem getEmailBody_resolution_witness:
  "getEmailBody example_base64 text_html_part = ''<b>hi</b>''
   \<and> getEmailBody example_base64 plain_only_payload =
       ''<div style='' @ [CHR 0x22] @ ''white-space: pre-wrap; font-family: monospace;''
         @ [CHR 0x22] @ ''>1 &lt; 2 ?&gt;</div>''
   \<and> getEmailBody example_base64 mixed_payload = ''<b>hi</b>''
   \<and> getEmailBody example_base64 (pdf_part ''a.pdf'' ''att-1'') = []"
proof -
  have dec_html: "decodeBase64Url example_base64 ''PGI-aGk8L2I-'' = ''<b>hi</b>''"
    by (simp add: decodeBase64Url_def replace_all_def example_base64_def)
  have dec_plain: "decodeBase64Url example_base64 ''MSA8IDIgPz4='' = ''1 < 2 ?>''"
    by (simp add: decodeBase64Url_def replace_all_def example_base64_def)
  have r1: "getEmailBody example_base64 text_html_part = ''<b>hi</b>''"
    using getEmailBody_resolution
      [of text_html_part "\<lparr>b_size = Some 9, b_data = Some ''PGI-aGk8L2I-'', attachmentId = None\<rparr>"
          9 "''PGI-aGk8L2I-''" example_base64]
      dec_html
    by (simp add: mime_defs)
  have r2: "getEmailBody example_base64 plain_only_payload =
       ''<div style='' @ [CHR 0x22] @ ''white-space: pre-wrap; font-family: monospace;''
         @ [CHR 0x22] @ ''>1 &lt; 2 ?&gt;</div>''"
    using getEmailBody_resolution
      [of plain_only_payload _ _ _ example_base64 "[text_plain_part]" _ "''MSA8IDIgPz4=''"]
      dec_plain
    by (simp add: mime_defs root_data_def part_data_def truthy_def)
  have inner: "getEmailBody example_base64
      (Part ''multipart/alternative'' [] [] no_body (Some [text_plain_part, text_html_part]))
      = ''<b>hi</b>''"
    using getEmailBody_resolution
      [of "Part ''multipart/alternative'' [] [] no_body (Some [text_plain_part, text_html_part])"
          _ _ _ example_base64 "[text_plain_part, text_html_part]" "''PGI-aGk8L2I-''"]
      dec_html
    by (simp add: mime_defs root_data_def part_data_def truthy_def)
  have r4: "getEmailBody example_base64 (pdf_part ''a.pdf'' ''att-1'') = []"
    using getEmailBody_resolution [of "pdf_part ''a.pdf'' ''att-1''" _ _ _ example_base64]
    by (simp add: mime_defs root_data_def truthy_def)
  have r3: "getEmailBody example_base64 mixed_payload = ''<b>hi</b>''"
    using getEmailBody_resolution
      [of mixed_payload _ _ _ example_base64
          "[Part ''multipart/alternative'' [] [] no_body (Some [text_plain_part, text_html_part]),
            pdf_part ''a.pdf'' ''att-1'', pdf_part ''b.pdf'' ''att-2'']"]
      inner
    by (simp add: mixed_payload_def root_data_def part_data_def truthy_def no_body_def
        pdf_part_def)
  show ?thesis
    by (rule conjI[OF r1 conjI[OF r2 conjI[OF r3 r4]]])
qed

subsection \<open>Attachments\<close>






lemma processEmail_id: "e_id (fst (processEmail w uid m disk)) = msg_id m"
  by (simp add: processEmail_def Let_def)

lemma processEmailWithVerification_id:
  "e_id (fst (processEmailWithVerification w uid pu m s)) = msg_id m"
  by (simp add: processEmailWithVerification_def Let_def not_invoice_def processEmail_id
      split: delivery.splits verify_json.splits)

lemma process_all_ids: "map e_id (fst (process_all w uid pu ms s)) = map msg_id ms"
  by (induction ms arbitrary: s) (simp_all add: Let_def processEmailWithVerification_id)



lemma process_all_length: "length (fst (process_all w uid pu ms s)) = length ms"
  by (induction ms arbitrary: s) (simp_all add: Let_def)



section \<open>Properties of sessions, tokens and profiles\<close>

subsection \<open>Storage\<close>

lemma stored_loadStorage: "stored (snd (loadStorage st)) = stored st"
  by (simp add: stored_def loadStorage_def allocate_def split: file_state.splits)

lemma loaded_value: "objects (snd (loadStorage st)) (fst (loadStorage st)) = stored st"
  by (simp add: stored_def)

lemma getSession_store: "snd (getSession cookie st) = snd (loadStorage st)"
  by (simp add: getSession_def Let_def)

lemma getSession_found:
  "sid \<noteq> [] \<Longrightarrow>
     fst (fst (getSession (Some sid) st)) = get_property (sessions (stored st)) sid"
  by (simp add: getSession_def Let_def stored_def)

lemma objects_kept:
  "objects (snd (loadStorage (snd (loadStorage st)))) (fst (loadStorage st))
     = objects (snd (loadStorage st)) (fst (loadStorage st))"
  by (simp add: loadStorage_def allocate_def split: file_state.splits)

lemma getTokens_found:
  assumes "sid \<noteq> []" "sessions (stored st) sid = Some session"
  shows "fst (getTokens (Some sid) st) = get_property (tokens (stored st)) (userId session)"
proof -
  have "fst (fst (getSession (Some sid) (snd (loadStorage st)))) = Own session"
    using assms by (simp add: getSession_found stored_loadStorage get_property_def)
  then show ?thesis
    by (simp add: getTokens_def Let_def getSession_store objects_kept loaded_value)
qed

lemma getTokens_store: "stored (snd (getTokens cookie st)) = stored st"
  by (simp add: getTokens_def Let_def getSession_store stored_loadStorage
      split: property.splits)

text \<open>
  When the revocation resolves, and the storage file can be written (or the process runs
  in production, where there is no file), the disconnect does clear both entries.
\<close>

lemma authDisconnect_stored:
  assumes "sessionId \<noteq> []"
    and "sessions (stored st) sessionId = Some session"
    and "tokens (stored st) (userId session) = Some tks"
    and "access_token tks = Some t" "revokeToken g t = Resolves ()"
    and "production st \<or> storage_write_ok g"
  shows "stored (authDisconnect g (Some sessionId) st)
           = clear_entries (userId session) (Some sessionId) (stored st)"
proof -
  let ?l = "loadStorage st"
  let ?st = "snd (loadStorage (snd ?l))"
  have found: "fst (fst (getSession (Some sessionId) (snd ?l))) = Own session"
    using assms(1,2) by (simp add: getSession_found stored_loadStorage get_property_def)
  have obj: "objects ?st (fst ?l) = stored st"
    by (simp add: objects_kept loaded_value)
  have tk: "get_property (tokens (objects ?st (fst ?l))) (userId session) = Own tks"
    using assms(3) by (simp add: obj get_property_def)
  have run: "authDisconnect g (Some sessionId) st
      = saveStorage (storage_write_ok g) (fst ?l)
          (?st\<lparr>objects := (objects ?st)
               (fst ?l := clear_entries (userId session) (Some sessionId) (stored st))\<rparr>)"
    using found tk assms(4,5) obj
    by (cases "t = []")
       (simp_all add: authDisconnect_def Let_def getSession_store property_key_def userId_of_def)
  show ?thesis
    unfolding run using assms(6)
    by (cases "storage_file st")
       (auto simp: stored_def saveStorage_def loadStorage_def allocate_def)
qed

lemma authDisconnect_clears_when_revocation_resolves:
  assumes "sessionId \<noteq> []"
    and "sessions (stored st) sessionId = Some session"
    and "tokens (stored st) (userId session) = Some tks"
    and "access_token tks = Some t" "revokeToken g t = Resolves ()"
    and "production st \<or> storage_write_ok g"
  shows "sessions (stored (authDisconnect g (Some sessionId) st)) sessionId = None
         \<and> tokens (stored (authDisconnect g (Some sessionId) st)) (userId session) = None"
  using assms(1) by (simp add: authDisconnect_stored[OF assms] clear_entries_def)

text \<open>
  Claim C6 says that a disconnect with a live session clears the token entry of the
  session's user and the session entry whether or not the revocation at the provider
  succeeds. The handler does not: the statements that clear them stand after the awaited
  revocation inside the same \<^verbatim>\<open>try\<close>. With the session \<open>sess_1\<close>, whose user has an access
  token, and a provider that rejects the revocation, the storage the next request loads
  still holds the session and the tokens, in development and in production.
\<close>

theorem authDisconnect_keeps_entries_when_revocation_rejects:
  "revokeToken google_down ''ya29.a0'' = Rejects (Some 400)
   \<and> stored dev_store = example_storage
   \<and> stored (authDisconnect google_down (Some ''sess_1'') dev_store) = example_storage
   \<and> stored production_store = example_storage
   \<and> stored (authDisconnect google_down (Some ''sess_1'') production_store) = example_storage
   \<and> sessions example_storage ''sess_1'' = Some example_session
   \<and> tokens example_storage ''1001'' = Some example_tokens"
  by (simp add: stored_def authDisconnect_def getSession_def loadStorage_def allocate_def
      get_property_def Let_def property_key_def userId_of_def auth_defs)

text \<open>
  Claim C7 says that a callback whose \<^verbatim>\<open>state\<close> names no session of the store ends in
  an error page and stores no tokens. The handler reads \<^verbatim>\<open>storage.sessions[state]\<close>, and
  for \<^verbatim>\<open>state=constructor\<close> that read yields the inherited \<^verbatim>\<open>Object\<close> function, which is
  truthy: no session \<open>constructor\<close> is in the store, yet the code is exchanged, the
  success page is sent and the tokens are stored under the key \<^verbatim>\<open>"undefined"\<close>.
\<close>

theorem authGoogleCallback_inherited_state_stores_tokens:
  "sessions (stored dev_store) ''constructor'' = None
   \<and> getToken google_ok ''4/0Ab'' = Resolves \<lparr>access_token = Some ''ya29.b1'', refresh_token = None\<rparr>
   \<and> fst (authGoogleCallback google_ok (Some ''4/0Ab'') (Some ''constructor'') dev_store)
       = Success_page
   \<and> tokens (stored (snd (authGoogleCallback google_ok (Some ''4/0Ab'') (Some ''constructor'')
                             dev_store))) ''undefined''
       = Some \<lparr>access_token = Some ''ya29.b1'', refresh_token = None\<rparr>
   \<and> tokens (stored dev_store) ''undefined'' = None"
  by (simp add: stored_def authGoogleCallback_def loadStorage_def allocate_def
      get_property_def Let_def Object_prototype_def saveStorage_def auth_defs)

text \<open>
  For a \<^verbatim>\<open>state\<close> that is neither a session id of the store nor the name of a member of
  \<^verbatim>\<open>Object.prototype\<close>, the callback does end in the error page and leaves the storage
  as it was.
\<close>

lemma authGoogleCallback_unknown_state:
  assumes "sessions (stored st) sessionId = None" "sessionId \<notin> set Object_prototype"
    "c \<noteq> []" "sessionId \<noteq> []"
  shows "fst (authGoogleCallback g (Some c) (Some sessionId) st)
           = Failure_page Invalid_or_expired_session"
    and "stored (snd (authGoogleCallback g (Some c) (Some sessionId) st)) = stored st"
    and "storage_file (snd (authGoogleCallback g (Some c) (Some sessionId) st)) = storage_file st"
  using assms
  by (simp_all add: authGoogleCallback_def Let_def get_property_def loaded_value
      stored_loadStorage)
     (simp add: loadStorage_def allocate_def split: file_state.splits)

subsection \<open>Profiles\<close>

lemma findOne_filter:
  "findOne P ps = (case filter P ps of [] \<Rightarrow> None | x # xs \<Rightarrow> Some x)"
  by (induction ps) (simp_all add: findOne_def)

lemma findOne_append_new:
  "P x \<Longrightarrow> \<exists>y. findOne P (ps @ [x]) = Some y \<and> P y"
  by (induction ps) (auto simp: findOne_def)

lemma findOrCreateProfile_run:
  "findOrCreateProfile resolves randomUUID gid e ps =
     (if resolves 0 \<and> resolves 1
      then (case findOne (\<lambda>p. p_google_id p = Some gid) ps of
              Some profile \<Rightarrow> (Some (p_uuid profile), ps)
            | None \<Rightarrow>
                if resolves 2
                then
                  let ps' = insertOne \<lparr>p_uuid = randomUUID, p_google_id = Some gid,
                                        p_email = e, p_scanned = None\<rparr> ps
                  in if resolves 3
                     then (map_option p_uuid (findOne (\<lambda>p. p_uuid p = randomUUID) ps'), ps')
                     else (None, ps')
                else (None, ps))
      else (None, ps))"
  by (simp add: findOrCreateProfile_def uninterrupted_def Let_def split: option.splits)


lemma foc_found:
  assumes "findOne (\<lambda>p. p_google_id p = Some gid) ps = Some q" "resolves 0" "resolves 1"
  shows "findOrCreateProfile resolves u gid e ps = (Some (p_uuid q), ps)"
  using assms by (simp add: findOrCreateProfile_run)



lemma foc_created:
  assumes "with_google_id gid ps = []" "resolves 0" "resolves 1" "resolves 2" "resolves 3"
  shows "findOrCreateProfile resolves u gid e ps =
           (Some u, ps @ [\<lparr>p_uuid = u, p_google_id = Some gid, p_email = e, p_scanned = None\<rparr>])"
proof -
  let ?new = "\<lparr>p_uuid = u, p_google_id = Some gid, p_email = e, p_scanned = None\<rparr>"
  have none: "findOne (\<lambda>p. p_google_id p = Some gid) ps = None"
    using assms(1) by (simp add: findOne_filter with_google_id_def)
  obtain y where "findOne (\<lambda>p. p_uuid p = u) (ps @ [?new]) = Some y" "p_uuid y = u"
    using findOne_append_new[of "\<lambda>p. p_uuid p = u" ?new ps] by auto
  then show ?thesis
    using assms none by (simp add: findOrCreateProfile_run insertOne_def Let_def)
qed











text \<open>
  A schedule that serves the four calls of the first request and then the four of the
  second is the two runs in sequence.
\<close>

lemma one_after_the_other:
  "in_sequence [a, b] ps =
     (let s = overlapping a b [True, True, True, True, False, False, False, False]
                ((Connect, Connect), ps)
      in ([returned (fst (fst s)), returned (snd (fst s))], snd s))"
  by (simp add: uninterrupted_def Let_def del: foc_step.simps)



section \<open>Properties of verification and of the mailbox fetch\<close>

subsection \<open>Classification is best effort\<close>

lemma verify_route_on_failure:
  assumes "classifier_fails (classifier v (forwarded rq))"
  shows "snd (verify_invoice_POST v (Some rq) d) = d"
    and "\<not> response_ok (v_status (fst (verify_invoice_POST v (Some rq) d)))"
  using assms
  by (auto simp: verify_invoice_POST_def classifier_fails_def response_ok_def
      split: classifier_response.splits)

text \<open>
  Claim C5. If the classifier call for a message throws a network error or answers with
  a status that is not 2xx (or the request never reaches the verification route), the
  message is returned as \<^verbatim>\<open>processEmail\<close> built it, with \<^verbatim>\<open>isInvoice = false\<close> and
  \<^verbatim>\<open>invoiceConfidence = null\<close>, and the database is left as it was: no mail record is
  persisted.
\<close>

theorem classifier_failure_degrades:
  assumes "verify_delivery w (msg_id m) = Undelivered
           \<or> classifier_fails
                (classifier (verifier w (msg_id m))
                   (forwarded (verification_request w profileUuid m
                                 (fst (processEmail w uid m disk)))))"
  shows "fst (processEmailWithVerification w uid profileUuid m (disk, d))
           = (fst (processEmail w uid m disk))\<lparr>isInvoice := Some False, invoiceConfidence := None\<rparr>
         \<and> isInvoice (fst (processEmailWithVerification w uid profileUuid m (disk, d))) = Some False
         \<and> invoiceConfidence (fst (processEmailWithVerification w uid profileUuid m (disk, d))) = None
         \<and> e_id (fst (processEmailWithVerification w uid profileUuid m (disk, d))) = msg_id m
         \<and> snd (snd (processEmailWithVerification w uid profileUuid m (disk, d))) = d"
proof -
  let ?rq = "verification_request w profileUuid m (fst (processEmail w uid m disk))"
  let ?v = "verifier w (msg_id m)"
  have id: "e_id (fst (processEmail w uid m disk)) = msg_id m"
    by (simp add: processEmail_def Let_def)
  show ?thesis
  proof (cases "verify_delivery w (msg_id m) = Undelivered")
    case True
    then show ?thesis
      using id by (simp add: processEmailWithVerification_def Let_def not_invoice_def)
  next
    case False
    with assms have fails: "classifier_fails (classifier ?v (forwarded ?rq))"
      by simp
    have same: "snd (verify_invoice_POST ?v (Some ?rq) d) = d"
      and bad: "\<not> response_ok (v_status (fst (verify_invoice_POST ?v (Some ?rq) d)))"
      using verify_route_on_failure[OF fails] by simp_all
    show ?thesis
      using id same bad
      by (cases "verify_delivery w (msg_id m)")
         (simp_all add: processEmailWithVerification_def Let_def not_invoice_def)
  qed
qed

lemma example_attachment_fails: "attachment_fails example_world ''1001'' ''m1'' (pdf_part ''a.pdf'' ''att-1'') ''att-1'' empty_disk"
  by (simp add: attachment_fails_def example_world_def)

lemma stored_dev: "stored dev_store = example_storage"
  by (simp add: stored_def loadStorage_def allocate_def dev_store_def)

text \<open>
  The theorem on the example message, with the classifier unreachable.
\<close>

theorem classifier_failure_degrades_witness:
  "classifier classifier_down
      (forwarded (verification_request example_world uuid_A example_message
                    (fst (processEmail example_world ''1001'' example_message empty_disk))))
     = Network_error
   \<and> isInvoice (fst (processEmailWithVerification example_world ''1001'' uuid_A example_message
                        (empty_disk, db_example))) = Some False
   \<and> invoiceConfidence (fst (processEmailWithVerification example_world ''1001'' uuid_A
                                 example_message (empty_disk, db_example))) = None
   \<and> e_id (fst (processEmailWithVerification example_world ''1001'' uuid_A example_message
                        (empty_disk, db_example))) = ''m1''
   \<and> snd (snd (processEmailWithVerification example_world ''1001'' uuid_A example_message
                        (empty_disk, db_example))) = db_example"
proof -
  have down: "classifier classifier_down
      (forwarded (verification_request example_world uuid_A example_message
                    (fst (processEmail example_world ''1001'' example_message empty_disk))))
     = Network_error"
    by (simp add: classifier_down_def)
  have v: "verifier example_world (msg_id example_message) = classifier_down"
    by (simp add: example_world_def)
  have fails: "verify_delivery example_world (msg_id example_message) = Undelivered
      \<or> classifier_fails
          (classifier (verifier example_world (msg_id example_message))
             (forwarded (verification_request example_world uuid_A example_message
                           (fst (processEmail example_world ''1001'' example_message empty_disk)))))"
    unfolding v down by (simp add: classifier_fails_def)
  have id: "msg_id example_message = ''m1''"
    by (simp add: example_message_def)
  note t = classifier_failure_degrades [OF fails, of db_example, unfolded id]
  show ?thesis
    using t down by blast
qed

subsection \<open>One entry per listed message\<close>

lemma rejections_none:
  "rejections get ids = [] \<longleftrightarrow> (\<forall>i\<in>set ids. \<exists>m. get i = Resolves m)"
  by (induction ids) (auto split: api.splits)

lemma rejections_some:
  "rejections get ids \<noteq> [] \<longleftrightarrow> (\<exists>i\<in>set ids. \<exists>code. get i = Rejects code)"
  by (induction ids) (auto split: api.splits)

lemma rejections_member:
  "code \<in> set (rejections get ids) \<Longrightarrow> \<exists>i\<in>set ids. get i = Rejects code"
  by (induction ids) (auto split: api.splits)

lemma resolutions_length:
  "rejections get ids = [] \<Longrightarrow> length (resolutions get ids) = length ids"
  by (induction ids) (auto split: api.splits)

lemma get_all_resolves:
  "rejections get ids = [] \<Longrightarrow> get_all first get ids = Resolves (resolutions get ids)"
  by (simp add: get_all_def)

lemma get_all_rejects:
  "rejections get ids \<noteq> [] \<Longrightarrow>
     get_all first get ids
       = Rejects (rejections get ids ! (first mod length (rejections get ids)))"
  by (cases "rejections get ids") (simp_all add: get_all_def)

lemma fetch_emails_count:
  assumes "messages_list w = Resolves listResponse"
    and "\<forall>i\<in>set (listed listResponse). \<exists>m. messages_get w i = Resolves m"
  shows "\<exists>es t u c. fst (fetch_emails w uid pu st s) = Emails es t u c
           \<and> length es = length (listed listResponse)
           \<and> map e_id es = map msg_id (resolutions (messages_get w) (listed listResponse))"
proof (cases "listed listResponse")
  case Nil
  then show ?thesis using assms(1) by (simp add: fetch_emails_def)
next
  case (Cons i ids)
  have none: "rejections (messages_get w) (i # ids) = []"
    using assms(2) Cons rejections_none[of "messages_get w" "i # ids"] by simp
  have ms: "get_all (settles_first w) (messages_get w) (i # ids)
      = Resolves (resolutions (messages_get w) (i # ids))"
    using none by (rule get_all_resolves)
  have "length (resolutions (messages_get w) (i # ids)) = length (i # ids)"
    using none by (rule resolutions_length)
  then show ?thesis
    using assms(1) Cons ms
    by (simp add: fetch_emails_def Let_def process_all_length process_all_ids)
qed

lemma fetch_emails_empty:
  assumes "messages_list w = Resolves listResponse"
    and "listed listResponse = []"
  shows "fetch_emails w uid pu st s = (Emails [] 0 0 None, st, s)"
  using assms by (simp add: fetch_emails_def)

lemma foc_some:
  assumes "resolves 0 \<and> resolves 1 \<and> resolves 2 \<and> resolves 3"
  shows "\<exists>uuid. fst (findOrCreateProfile resolves u gid e ps) = Some uuid"
proof (cases "findOne (\<lambda>p. p_google_id p = Some gid) ps")
  case None
  then have "with_google_id gid ps = []"
    by (simp add: findOne_filter with_google_id_def split: list.splits)
  then show ?thesis using assms by (simp add: foc_created)
next
  case (Some q)
  then show ?thesis using assms by (simp add: foc_found)
qed

lemma getEmails_authenticated:
  assumes "sessionId \<noteq> []"
    and "sessions (stored st) sessionId = Some session"
    and "tokens (stored st) (userId session) = Some tks"
    and "truthy (profile_uuid session)
         \<or> (profile_resolves w 0 \<and> profile_resolves w 1 \<and> profile_resolves w 2
              \<and> profile_resolves w 3)"
  shows "\<exists>pu st' d'. getEmails g w (Some sessionId) (st, disk, d)
           = fetch_emails w (userId session) pu st' (disk, d')"
proof -
  define asked where "asked = getTokens (Some sessionId) st"
  define found where "found = getSession (Some sessionId) (snd asked)"
  have tk: "fst asked \<noteq> Undefined"
    using assms(1-3) by (simp add: asked_def getTokens_found get_property_def)
  have same: "stored (snd found) = stored st"
    by (simp add: found_def asked_def getSession_store stored_loadStorage getTokens_store)
  have own: "fst (fst found) = Own session"
    using assms(1,2)
    by (simp add: found_def asked_def getSession_found getTokens_store get_property_def)
  show ?thesis
  proof (cases "truthy (profile_uuid session)")
    case True
    have "getEmails g w (Some sessionId) (st, disk, d)
        = fetch_emails w (userId session) (or_empty (profile_uuid session)) (snd found) (disk, d)"
      using tk own True by (simp add: getEmails_def Let_def asked_def[symmetric] found_def[symmetric])
    then show ?thesis by blast
  next
    case False
    with assms(4) obtain uuid where created:
      "fst (findOrCreateProfile (profile_resolves w) (profile_randomUUID w) (userId session)
              (s_email session) (profiles d)) = Some uuid"
      using foc_some by blast
    have again: "get_property
        (sessions (objects (snd (loadStorage (snd found))) (fst (loadStorage (snd found)))))
        sessionId = Own session"
      using assms(2) same by (simp add: loaded_value get_property_def)
    then obtain st2 where st2: "backfill (storage_write_ok g) (Some sessionId) uuid
        (fst (loadStorage (snd found))) (snd (loadStorage (snd found))) = Some st2"
      using assms(1) by (simp add: backfill_def)
    obtain st3 d' where "getEmails g w (Some sessionId) (st, disk, d)
        = fetch_emails w (userId session) uuid st3 (disk, d')"
      using tk own False created st2
      by (simp add: getEmails_def Let_def asked_def[symmetric] found_def[symmetric])
    then show ?thesis by blast
  qed
qed

lemma fetch_emails_get_rejects:
  assumes "messages_list w = Resolves listResponse"
    and "rejections (messages_get w) (listed listResponse) \<noteq> []"
  shows "fst (fetch_emails w uid pu st s)
           = caught (rejections (messages_get w) (listed listResponse)
                       ! (settles_first w mod length (rejections (messages_get w)
                                                        (listed listResponse))))"
proof (cases "listed listResponse")
  case Nil
  then show ?thesis using assms(2) by simp
next
  case (Cons i ids)
  have "get_all (settles_first w) (messages_get w) (i # ids)
      = Rejects (rejections (messages_get w) (i # ids)
                   ! (settles_first w mod length (rejections (messages_get w) (i # ids))))"
    using assms(2) Cons get_all_rejects[of "messages_get w" "i # ids" "settles_first w"]
    by simp
  then show ?thesis
    using assms(1) Cons by (simp add: fetch_emails_def)
qed

text \<open>
  Claim C2, as amended. Let the request carry the id of a stored session whose user has
  stored tokens, let the profile be known or the find-or-create block succeed, and let
  the mailbox list resolve. If \<^verbatim>\<open>messages.get\<close> resolves for every listed message, then
  \<^verbatim>\<open>getEmails\<close> answers with an \<^verbatim>\<open>emails\<close> array that has exactly one entry per listed
  message, each with the id of the message fetched for it, in the order of the list,
  whatever the attachment fetches, the file system and the classifier do; for an empty
  list the answer is \<^verbatim>\<open>{emails: [], total: 0, unreadCount: 0}\<close>. If \<^verbatim>\<open>messages.get\<close> rejects
  for some listed message, the answer is an error and no \<^verbatim>\<open>emails\<close> array: the rejection
  that comes first is the rejection of a listed message, and the answer is 401
  \<^verbatim>\<open>Token expired\<close> when its code is 401 and 500 \<^verbatim>\<open>Failed to fetch emails\<close> otherwise.
\<close>

theorem getEmails_returns_every_listed_message:
  assumes "sessionId \<noteq> []"
    and "sessions (stored st) sessionId = Some session"
    and "tokens (stored st) (userId session) = Some tks"
    and "truthy (profile_uuid session)
         \<or> (profile_resolves w 0 \<and> profile_resolves w 1 \<and> profile_resolves w 2
              \<and> profile_resolves w 3)"
    and "messages_list w = Resolves listResponse"
  shows "((\<forall>i\<in>set (listed listResponse). \<exists>m. messages_get w i = Resolves m) \<longrightarrow>
            (\<exists>es t u c. fst (getEmails g w (Some sessionId) (st, disk, d)) = Emails es t u c
               \<and> length es = length (listed listResponse)
               \<and> map e_id es
                   = map msg_id (resolutions (messages_get w) (listed listResponse))))
         \<and> (listed listResponse = [] \<longrightarrow>
              fst (getEmails g w (Some sessionId) (st, disk, d)) = Emails [] 0 0 None)
         \<and> ((\<exists>i\<in>set (listed listResponse). \<exists>code. messages_get w i = Rejects code) \<longrightarrow>
              (\<exists>i\<in>set (listed listResponse). \<exists>code.
                 messages_get w i = Rejects code
                 \<and> code = rejections (messages_get w) (listed listResponse)
                            ! (settles_first w mod length (rejections (messages_get w)
                                                             (listed listResponse)))
                 \<and> fst (getEmails g w (Some sessionId) (st, disk, d))
                     = (if code = Some 401 then Emails_error 401 ''Token expired''
                        else Emails_error 500 ''Failed to fetch emails'')))"
proof -
  obtain pu st' d' where path: "getEmails g w (Some sessionId) (st, disk, d)
      = fetch_emails w (userId session) pu st' (disk, d')"
    using getEmails_authenticated[OF assms(1-4)] by blast
  let ?rs = "rejections (messages_get w) (listed listResponse)"
  let ?first = "?rs ! (settles_first w mod length ?rs)"
  have every: "(\<forall>i\<in>set (listed listResponse). \<exists>m. messages_get w i = Resolves m) \<longrightarrow>
            (\<exists>es t u c. fst (getEmails g w (Some sessionId) (st, disk, d)) = Emails es t u c
               \<and> length es = length (listed listResponse)
               \<and> map e_id es
                   = map msg_id (resolutions (messages_get w) (listed listResponse)))"
    unfolding path using fetch_emails_count[OF assms(5)] by blast
  have none: "listed listResponse = [] \<longrightarrow>
              fst (getEmails g w (Some sessionId) (st, disk, d)) = Emails [] 0 0 None"
    unfolding path using fetch_emails_empty[OF assms(5)] by simp
  have some: "(\<exists>i\<in>set (listed listResponse). \<exists>code. messages_get w i = Rejects code) \<longrightarrow>
              (\<exists>i\<in>set (listed listResponse). \<exists>code.
                 messages_get w i = Rejects code
                 \<and> code = ?first
                 \<and> fst (getEmails g w (Some sessionId) (st, disk, d))
                     = (if code = Some 401 then Emails_error 401 ''Token expired''
                        else Emails_error 500 ''Failed to fetch emails''))"
  proof
    assume "\<exists>i\<in>set (listed listResponse). \<exists>code. messages_get w i = Rejects code"
    then have rs: "?rs \<noteq> []"
      by (simp add: rejections_some)
    then have "?first \<in> set ?rs"
      by simp
    then obtain i where i: "i \<in> set (listed listResponse)" "messages_get w i = Rejects ?first"
      using rejections_member by blast
    have "fst (getEmails g w (Some sessionId) (st, disk, d)) = caught ?first"
      unfolding path using assms(5) rs by (rule fetch_emails_get_rejects)
    then show "\<exists>i\<in>set (listed listResponse). \<exists>code.
                 messages_get w i = Rejects code
                 \<and> code = ?first
                 \<and> fst (getEmails g w (Some sessionId) (st, disk, d))
                     = (if code = Some 401 then Emails_error 401 ''Token expired''
                        else Emails_error 500 ''Failed to fetch emails'')"
      using i by (auto simp: caught_def)
  qed
  show ?thesis
    using every none some by (intro conjI)
qed

text \<open>
  The theorem in the example world, where an attachment fetch and the classifier fail
  for each of the two listed messages, and in the world where both \<^verbatim>\<open>messages.get\<close>
  calls reject, the second first and with code 401.
\<close>

theorem getEmails_returns_every_listed_message_witness:
  "listed \<lparr>messages = Some [''m1'', ''m2''], resultSizeEstimate = Some 2\<rparr> = [''m1'', ''m2'']
   \<and> attachments_get example_world ''m1'' ''att-1'' = Rejects (Some 500)
   \<and> classifier (verifier example_world ''m1'') = (\<lambda>rq. Network_error)
   \<and> (\<exists>es t u c.
         fst (getEmails google_ok example_world (Some ''sess_1'') (dev_store, empty_disk, db_example))
           = Emails es t u c
         \<and> length es = 2
         \<and> map e_id es = [''m1'', ''m2''])
   \<and> messages_get gmail_token_expired ''m1'' = Rejects (Some 503)
   \<and> messages_get gmail_token_expired ''m2'' = Rejects (Some 401)
   \<and> fst (getEmails google_ok gmail_token_expired (Some ''sess_1'')
            (dev_store, empty_disk, db_example))
       = Emails_error 401 ''Token expired''"
proof -
  have a1: "''sess_1'' \<noteq> []" by simp
  have a2: "sessions (stored dev_store) ''sess_1'' = Some example_session"
    by (simp add: stored_dev example_storage_def)
  have a3: "tokens (stored dev_store) (userId example_session) = Some example_tokens"
    by (simp add: stored_dev example_storage_def example_session_def)
  have a4: "truthy (profile_uuid example_session)
         \<or> (profile_resolves example_world 0 \<and> profile_resolves example_world 1
              \<and> profile_resolves example_world 2 \<and> profile_resolves example_world 3)"
    by (simp add: example_world_def always_def)
  have a5: "messages_list example_world
      = Resolves \<lparr>messages = Some [''m1'', ''m2''], resultSizeEstimate = Some 2\<rparr>"
    by (simp add: example_world_def)
  have l: "listed \<lparr>messages = Some [''m1'', ''m2''], resultSizeEstimate = Some 2\<rparr> = [''m1'', ''m2'']"
    by (simp add: listed_def)
  have a6: "\<forall>i\<in>set (listed \<lparr>messages = Some [''m1'', ''m2''], resultSizeEstimate = Some 2\<rparr>).
      \<exists>m. messages_get example_world i = Resolves m"
    by (simp add: example_world_def)
  have got: "map msg_id (resolutions (messages_get example_world) [''m1'', ''m2''])
      = [''m1'', ''m2'']"
    by (simp add: example_world_def)
  note t = getEmails_returns_every_listed_message [OF a1 a2 a3 a4 a5, of google_ok empty_disk
      db_example]
  have every: "\<exists>es t u c.
         fst (getEmails google_ok example_world (Some ''sess_1'') (dev_store, empty_disk, db_example))
           = Emails es t u c
         \<and> length es = 2
         \<and> map e_id es = [''m1'', ''m2'']"
    using t [THEN conjunct1, THEN mp, OF a6] unfolding l got by (simp add: numeral_2_eq_2)
  have b4: "truthy (profile_uuid example_session)
         \<or> (profile_resolves gmail_token_expired 0 \<and> profile_resolves gmail_token_expired 1
              \<and> profile_resolves gmail_token_expired 2
              \<and> profile_resolves gmail_token_expired 3)"
    by (simp add: gmail_token_expired_def example_world_def always_def)
  have b5: "messages_list gmail_token_expired
      = Resolves \<lparr>messages = Some [''m1'', ''m2''], resultSizeEstimate = Some 2\<rparr>"
    by (simp add: gmail_token_expired_def example_world_def)
  have m1: "messages_get gmail_token_expired ''m1'' = Rejects (Some 503)"
    and m2: "messages_get gmail_token_expired ''m2'' = Rejects (Some 401)"
    by (simp_all add: gmail_token_expired_def example_world_def)
  have b6: "\<exists>i\<in>set (listed \<lparr>messages = Some [''m1'', ''m2''], resultSizeEstimate = Some 2\<rparr>).
      \<exists>code. messages_get gmail_token_expired i = Rejects code"
    unfolding l using m1 by simp
  have first: "rejections (messages_get gmail_token_expired) [''m1'', ''m2'']
       ! (settles_first gmail_token_expired
            mod length (rejections (messages_get gmail_token_expired) [''m1'', ''m2'']))
     = Some 401"
    by (simp add: gmail_token_expired_def example_world_def)
  note r = getEmails_returns_every_listed_message [OF a1 a2 a3 b4 b5, of google_ok empty_disk
      db_example]
  have expired: "fst (getEmails google_ok gmail_token_expired (Some ''sess_1'')
            (dev_store, empty_disk, db_example))
       = Emails_error 401 ''Token expired''"
    using r [THEN conjunct2, THEN conjunct2, THEN mp, OF b6] unfolding l first by auto
  have c: "classifier (verifier example_world ''m1'') = (\<lambda>rq. Network_error)"
    and f: "attachments_get example_world ''m1'' ''att-1'' = Rejects (Some 500)"
    by (simp_all add: example_world_def classifier_down_def)
  show ?thesis
    using l f c every m1 m2 expired by blast
qed

text \<open>
  Claim C2 as stated promises one entry per listed message for every batch. When a
  \<^verbatim>\<open>messages.get\<close> rejects, \<^verbatim>\<open>Promise.all\<close> rejects and the \<^verbatim>\<open>catch\<close> of the handler
  answers with an error for the whole batch: two messages are listed, no \<^verbatim>\<open>emails\<close> array
  is returned.
\<close>

theorem getEmails_fails_when_a_message_fetch_rejects:
  "messages_list gmail_get_down
     = Resolves \<lparr>messages = Some [''m1'', ''m2''], resultSizeEstimate = Some 2\<rparr>
   \<and> fst (getEmails google_ok gmail_get_down (Some ''sess_1'') (dev_store, empty_disk, db_example))
       = Emails_error 500 ''Failed to fetch emails''"
proof -
  have a1: "''sess_1'' \<noteq> []" by simp
  have a2: "sessions (stored dev_store) ''sess_1'' = Some example_session"
    by (simp add: stored_dev example_storage_def)
  have a3: "tokens (stored dev_store) (userId example_session) = Some example_tokens"
    by (simp add: stored_dev example_storage_def example_session_def)
  have a4: "truthy (profile_uuid example_session)
         \<or> (profile_resolves gmail_get_down 0 \<and> profile_resolves gmail_get_down 1
              \<and> profile_resolves gmail_get_down 2 \<and> profile_resolves gmail_get_down 3)"
    by (simp add: gmail_get_down_def example_world_def always_def)
  have a5: "messages_list gmail_get_down
      = Resolves \<lparr>messages = Some [''m1'', ''m2''], resultSizeEstimate = Some 2\<rparr>"
    by (simp add: gmail_get_down_def example_world_def)
  obtain pu st' d' where path:
    "getEmails google_ok gmail_get_down (Some ''sess_1'') (dev_store, empty_disk, db_example)
      = fetch_emails gmail_get_down (userId example_session) pu st' (empty_disk, d')"
    using getEmails_authenticated[OF a1 a2 a3 a4] by blast
  have "fst (fetch_emails gmail_get_down (userId example_session) pu st' (empty_disk, d'))
      = Emails_error 500 ''Failed to fetch emails''"
    by (simp add: fetch_emails_def listed_def caught_def get_all_def gmail_get_down_def
        example_world_def)
  with path a5 show ?thesis by simp
qed
end
